theory Spec2Isabelle
  imports Complex_Main "HOL-Library.Word"
begin

unbundle bit_operations_syntax

section \<open>Typed arrays\<close>

text \<open>
  An \<open>Int8Array\<close>, \<open>Uint8Array\<close> or \<open>Uint8ClampedArray\<close> is a list of 8-bit words;
  \<open>sint\<close> reads an element as the signed value an \<open>Int8Array\<close> returns and \<open>unat\<close>
  as the unsigned one.  Reading outside the array gives \<open>undefined\<close> (here \<open>None\<close>);
  writing outside the array is ignored, which is what \<open>xs[i := v]\<close> does.
\<close>

type_synonym byte = "8 word"

definition typed_get :: "'a list \<Rightarrow> nat \<Rightarrow> 'a option" where
  "typed_get xs i = (if i < length xs then Some (xs ! i) else None)"

text \<open>\<open>data[i]! & 0xFF\<close>: the unsigned byte of a cell; \<open>undefined & 0xFF\<close> is 0.\<close>

definition cell_value :: "byte list \<Rightarrow> nat \<Rightarrow> byte" where
  "cell_value data i = (case typed_get data i of None \<Rightarrow> 0 | Some b \<Rightarrow> b AND 0xFF)"

section \<open>Occupancy grids: palettes and texture update\<close>

type_synonym rgba = "byte \<times> byte \<times> byte \<times> byte"

text \<open>The \<open>switch (value)\<close> of the \<open>"/traffic_map"\<close> branch of \<open>updateTexture\<close>.\<close>

definition traffic_rgba :: "byte \<Rightarrow> rgba" where
  "traffic_rgba v =
     (if v = 0 then (0, 255, 0, 128)
      else if v = 100 then (0, 0, 255, 128)
      else (0, 0, 0, 0))"

text \<open>
  The body of the \<open>"/one_way_map"\<close> loop of \<open>updateTexture\<close>: four local variables,
  then nine conditional updates in the order of the source.
\<close>

definition one_way_rgba :: "byte \<Rightarrow> rgba" where
  "one_way_rgba v =
     (let red = (0 :: byte); green = (0 :: byte); blue = (0 :: byte); alpha = (128 :: byte);
          alpha = (if v = 255 then 0 else alpha);
          red = (if v AND 0b11000111 = 0b11000111 then red OR 0b10000000 else red);
          green = (if v AND 0b10001111 = 0b10001111 then green OR 0b01000000 else green);
          red = (if v AND 0b00011111 = 0b00011111 then red OR 0b00100000 else red);
          blue = (if v AND 0b00111110 = 0b00111110 then blue OR 0b10000000 else blue);
          green = (if v AND 0b01111100 = 0b01111100 then green OR 0b00100000 else green);
          green = (if v AND 0b11111000 = 0b11111000 then green OR 0b10000000 else green);
          red = (if v AND 0b11110001 = 0b11110001 then red OR 0b01000000 else red);
          blue = (if v AND 0b11100011 = 0b11100011 then blue OR 0b01000000 else blue)
      in (red, green, blue, alpha))"

text \<open>The \<open>switch (value)\<close> of the \<open>default\<close> branch of \<open>updateTexture\<close>.\<close>

definition default_rgba :: "byte \<Rightarrow> rgba" where
  "default_rgba v =
     (if v = 0 then (255, 255, 255, 128)
      else if v = 224 then (0, 0, 0, 128)
      else if v = 192 then (255, 168, 168, 128)
      else if v = 96 then (128, 128, 128, 128)
      else if v = 95 then (255, 165, 0, 128)
      else (0, 0, 0, 0))"


subsection \<open>Data model\<close>

text \<open>
  Numbers that only travel through the code (coordinates, resolution) are reals; widths,
  heights and lengths are naturals.  The header and \<open>map_load_time\<close> of a grid only feed
  \<open>messageTime\<close> and \<open>frameId\<close> through helpers of the renderer; they are left out, as
  are the mesh and the picking material.
\<close>

record vec3 =
  vx :: real
  vy :: real
  vz :: real

record quaternion =
  qx :: real
  qy :: real
  qz :: real
  qw :: real

record pose =
  position :: vec3
  orientation :: quaternion

record partial_vec3 =
  p_x :: "real option"
  p_y :: "real option"
  p_z :: "real option"

record partial_quaternion =
  p_qx :: "real option"
  p_qy :: "real option"
  p_qz :: "real option"
  p_qw :: "real option"

record partial_pose =
  p_position :: "partial_vec3 option"
  p_orientation :: "partial_quaternion option"

record grid_info =
  resolution :: real
  width :: nat
  height :: nat
  origin :: pose

record occupancy_grid =
  info :: grid_info
  data :: "byte list"

text \<open>\<open>PartialMessage<OccupancyGrid>\<close>: every field may be missing.\<close>

record partial_info =
  p_resolution :: "real option"
  p_width :: "nat option"
  p_height :: "nat option"
  p_origin :: "partial_pose option"

record partial_grid =
  p_info :: "partial_info option"
  p_data :: "byte list option"

record texture =
  tex_id :: nat
  image_width :: nat
  image_height :: nat
  image_data :: "byte list"
  needsUpdate :: bool

text \<open>
  The user data of an \<open>OccupancyGridRenderable\<close> together with its scale.  The material
  refers to its texture by identity: \<open>material_map\<close> is the \<open>tex_id\<close> of
  \<open>material.map\<close>.
\<close>

record renderable =
  topic :: string
  occupancyGrid :: occupancy_grid
  rpose :: pose
  receiveTime :: int
  texture :: texture
  material_map :: nat
  scale :: "real \<times> real \<times> real"

text \<open>
  What the extension shares between renderables: the errors reported through
  \<open>renderer.settings.errors.addToTopic(topic, errorId, message)\<close>, in call order, the
  textures on which \<open>dispose()\<close> was called, and the next unused object identity.
\<close>

record scene =
  errors :: "(string \<times> string \<times> string) list"
  disposed :: "nat list"
  next_id :: nat

datatype error = PngLoadError | TypeError

subsection \<open>Helpers of normalizeMessages\<close>

text \<open>
  Modelled from the spec: \<open>normalizePose\<close> of normalizeMessages, which is not under
  src/.  Section 4.4 speaks of \<open>a zero-origin default when absent\<close>: a missing
  coordinate is 0, a missing orientation is the identity rotation.
\<close>

definition normalizeVector3 :: "partial_vec3 option \<Rightarrow> vec3" where
  "normalizeVector3 v =
     (case v of
        None \<Rightarrow> \<lparr>vx = 0, vy = 0, vz = 0\<rparr>
      | Some p \<Rightarrow> \<lparr>vx = case_option 0 id (p_x p), vy = case_option 0 id (p_y p),
                   vz = case_option 0 id (p_z p)\<rparr>)"

definition normalizeQuaternion :: "partial_quaternion option \<Rightarrow> quaternion" where
  "normalizeQuaternion q =
     (case q of
        None \<Rightarrow> \<lparr>qx = 0, qy = 0, qz = 0, qw = 1\<rparr>
      | Some p \<Rightarrow> \<lparr>qx = case_option 0 id (p_qx p), qy = case_option 0 id (p_qy p),
                   qz = case_option 0 id (p_qz p), qw = case_option 1 id (p_qw p)\<rparr>)"

definition normalizePose :: "partial_pose option \<Rightarrow> pose" where
  "normalizePose p =
     \<lparr>position = normalizeVector3 (case p of None \<Rightarrow> None | Some q \<Rightarrow> p_position q),
      orientation = normalizeQuaternion (case p of None \<Rightarrow> None | Some q \<Rightarrow> p_orientation q)\<rparr>"

text \<open>
  Modelled from the spec: \<open>normalizeInt8Array\<close> of normalizeMessages, which is not under
  src/.  Section 7 (3): an unknown grid is an empty grid, so a missing buffer is the empty
  one; a buffer that is there is kept.
\<close>

definition normalizeInt8Array :: "byte list option \<Rightarrow> byte list" where
  "normalizeInt8Array d = (case d of None \<Rightarrow> [] | Some xs \<Rightarrow> xs)"

subsection \<open>normalizeOccupancyGrid\<close>

definition normalizeOccupancyGrid :: "partial_grid \<Rightarrow> occupancy_grid" where
  "normalizeOccupancyGrid message =
     (let i = p_info message in
      \<lparr>info =
         \<lparr>resolution = (case Option.bind i p_resolution of None \<Rightarrow> 0 | Some r \<Rightarrow> r),
          width = (case Option.bind i p_width of None \<Rightarrow> 0 | Some w \<Rightarrow> w),
          height = (case Option.bind i p_height of None \<Rightarrow> 0 | Some h \<Rightarrow> h),
          origin = normalizePose (Option.bind i p_origin)\<rparr>,
       data = normalizeInt8Array (p_data message)\<rparr>)"

subsection \<open>createTexture and updateTexture\<close>

text \<open>
  \<open>new Uint8ClampedArray(size * 4)\<close> is filled with zeros.  The new object takes the next
  unused identity.
\<close>

definition createTexture :: "scene \<Rightarrow> occupancy_grid \<Rightarrow> texture \<times> scene" where
  "createTexture sc g =
     (let w = width (info g); h = height (info g); size = w * h;
          rgba = replicate (size * 4) (0 :: byte)
      in (\<lparr>tex_id = next_id sc, image_width = w, image_height = h, image_data = rgba,
            needsUpdate = False\<rparr>,
          sc\<lparr>next_id := Suc (next_id sc)\<rparr>))"

text \<open>The four stores \<open>rgba[offset + 0..3] = ...\<close> of one loop iteration.\<close>

definition write_pixel :: "(byte \<Rightarrow> rgba) \<Rightarrow> byte list \<Rightarrow> nat \<Rightarrow> byte list \<Rightarrow> byte list" where
  "write_pixel palette d i rgba =
     (let v = cell_value d i; offset = i * 4 in
      case palette v of (r, g, b, a) \<Rightarrow>
        rgba[offset + 0 := r, offset + 1 := g, offset + 2 := b, offset + 3 := a])"

text \<open>\<open>switch (topic)\<close>: the palette is chosen by the name of the channel.\<close>

definition palette_of :: "string \<Rightarrow> byte \<Rightarrow> rgba" where
  "palette_of tp =
     (if tp = ''/traffic_map'' then traffic_rgba
      else if tp = ''/one_way_map'' then one_way_rgba
      else default_rgba)"

definition updateTexture :: "string \<Rightarrow> texture \<Rightarrow> occupancy_grid \<Rightarrow> texture" where
  "updateTexture tp tex g =
     (let size = width (info g) * height (info g) in
      tex\<lparr>image_data := fold (write_pixel (palette_of tp) (data g)) [0..<size] (image_data tex),
          needsUpdate := True\<rparr>)"


subsection \<open>Format dispatch\<close>

definition png_signature :: "int list" where
  "png_signature = [-119, 80, 78, 71]"

text \<open>
  \<open>occupancyGrid.data[i] == png_signature[i]\<close> for \<open>i = 0..3\<close>.  The array is an
  \<open>Int8Array\<close>, so an element reads as a signed number; an element that is not there
  reads as \<open>undefined\<close>, which equals no number.
\<close>

definition has_png_signature :: "byte list \<Rightarrow> bool" where
  "has_png_signature d =
     (map_option sint (typed_get d 0) = Some (png_signature ! 0)
      \<and> map_option sint (typed_get d 1) = Some (png_signature ! 1)
      \<and> map_option sint (typed_get d 2) = Some (png_signature ! 2)
      \<and> map_option sint (typed_get d 3) = Some (png_signature ! 3))"

text \<open>Storing a number into a \<open>Uint8Array\<close> or an \<open>Int8Array\<close> keeps its low 8 bits.\<close>

definition uint8_of :: "int \<Rightarrow> byte" where
  "uint8_of n = word_of_int n"

definition int8_of :: "int \<Rightarrow> byte" where
  "int8_of n = word_of_int n"

text \<open>
  Lines 214 to 229 of \<open>_updateOccupancyGridRenderable\<close>.  The decoder
  \<open>PNG.load(data).decodePixels()\<close> belongs to the library png-ts and is a parameter:
  it is given the bytes of \<open>new Uint8Array(occupancyGrid.data)\<close> and returns the pixel
  bytes, or \<open>None\<close> when it throws.  The loop \<open>pixels[i] = imgData[i]\<close> stores each
  unsigned pixel byte into an \<open>Int8Array\<close> of the same length.
\<close>

definition decode_png :: "(byte list \<Rightarrow> byte list option) \<Rightarrow> occupancy_grid \<Rightarrow> error + occupancy_grid" where
  "decode_png png g =
     (if has_png_signature (data g) then
        (case png (map (\<lambda>b. uint8_of (sint b)) (data g)) of
           None \<Rightarrow> Inl PngLoadError
         | Some imgData \<Rightarrow> Inr (g\<lparr>data := map (\<lambda>p. int8_of (uint p)) imgData\<rparr>))
      else Inr g)"

subsection \<open>The dimension check and its diagnostic\<close>

text \<open>A non-negative integer inside a template literal prints as its decimal digits.\<close>

fun string_of_nat :: "nat \<Rightarrow> string" where
  "string_of_nat n =
     (if n < 10 then [''0123456789'' ! n]
      else string_of_nat (n div 10) @ [''0123456789'' ! (n mod 10)])"

declare string_of_nat.simps [simp del]

definition INVALID_OCCUPANCY_GRID :: string where
  "INVALID_OCCUPANCY_GRID = ''INVALID_OCCUPANCY_GRID''"

definition invalid_message :: "occupancy_grid \<Rightarrow> string" where
  "invalid_message g =
     ''OccupancyGrid data length ('' @ string_of_nat (length (data g))
       @ '') is not equal to width '' @ string_of_nat (width (info g))
       @ '' * height '' @ string_of_nat (height (info g))"

definition invalidOccupancyGridError :: "scene \<Rightarrow> renderable \<Rightarrow> string \<Rightarrow> scene" where
  "invalidOccupancyGridError sc r message =
     sc\<lparr>errors := errors sc @ [(topic r, INVALID_OCCUPANCY_GRID, message)]\<rparr>"

subsection \<open>_updateOccupancyGridRenderable and the message handlers\<close>

text \<open>
  \<open>_updateOccupancyGridRenderable\<close> is modelled in two parts: the format dispatch
  above, and everything else (lines 208 to 212 and 232 to 255) in
  \<open>updateAfterDispatch\<close>.  The message object is shared:
  \<open>renderable.userData.occupancyGrid\<close> and the parameter are one object, so the stored
  grid is the one with the buffer that the PNG branch puts in.  An exception of the
  decoder leaves the function; the state it leaves behind is not modelled.
\<close>

definition updateAfterDispatch ::
  "scene \<Rightarrow> renderable \<Rightarrow> occupancy_grid \<Rightarrow> int \<Rightarrow> scene \<times> renderable" where
  "updateAfterDispatch sc r g rt =
     (let r = r\<lparr>occupancyGrid := g, rpose := origin (info g), receiveTime := rt\<rparr>;
          size = width (info g) * height (info g)
      in if length (data g) \<noteq> size then
           (invalidOccupancyGridError sc r (invalid_message g), r)
         else
           let tex = texture r;
               w = width (info g);
               h = height (info g);
               res = resolution (info g);
               (tex, sc, r) =
                 (if w \<noteq> image_width tex \<or> h \<noteq> image_height tex then
                    let sc = sc\<lparr>disposed := disposed sc @ [tex_id tex]\<rparr>;
                        (tex, sc) = createTexture sc g
                    in (tex, sc, r\<lparr>texture := tex, material_map := tex_id tex\<rparr>)
                  else (tex, sc, r));
               tex = updateTexture (topic r) tex g
           in (sc, r\<lparr>texture := tex, scale := (res * real w, res * real h, 1)\<rparr>))"

definition updateOccupancyGridRenderable ::
  "(byte list \<Rightarrow> byte list option) \<Rightarrow> scene \<Rightarrow> renderable \<Rightarrow> occupancy_grid \<Rightarrow> int
     \<Rightarrow> error + (scene \<times> renderable)" where
  "updateOccupancyGridRenderable png sc r g rt =
     (case decode_png png g of
        Inl e \<Rightarrow> Inl e
      | Inr g \<Rightarrow> Inr (updateAfterDispatch sc r g rt))"

text \<open>
  \<open>handleOccupancyGrid\<close>: the renderable of a channel is created on its first message,
  with a texture of the size the message announces, and then updated.
\<close>

definition handleOccupancyGrid ::
  "(byte list \<Rightarrow> byte list option) \<Rightarrow> scene \<times> (string \<rightharpoonup> renderable) \<Rightarrow> string \<Rightarrow> partial_grid \<Rightarrow> int
     \<Rightarrow> error + (scene \<times> (string \<rightharpoonup> renderable))" where
  "handleOccupancyGrid png st tp message rt =
     (let sc = fst st; rs = snd st;
          g = normalizeOccupancyGrid message;
          (sc, r) =
            (case rs tp of
               Some r \<Rightarrow> (sc, r)
             | None \<Rightarrow>
                 let (tex, sc) = createTexture sc g
                 in (sc, \<lparr>topic = tp, occupancyGrid = g, rpose = origin (info g),
                          receiveTime = rt, texture = tex, material_map = tex_id tex,
                          scale = (1, 1, 1)\<rparr>))
      in case updateOccupancyGridRenderable png sc r g rt of
           Inl e \<Rightarrow> Inl e
         | Inr (sc, r) \<Rightarrow> Inr (sc, rs(tp \<mapsto> r)))"

subsection \<open>The vendor costmap adapter\<close>

text \<open>\<open>PartialMessage<CostmapData>\<close>; the packed bytes are unsigned.\<close>

record costmap_data =
  c_data :: "byte list option"
  c_width :: "nat option"
  c_height :: "nat option"
  c_offset_x :: "real option"
  c_offset_y :: "real option"
  c_resolution :: "real option"

text \<open>
  \<open>xs[q]\<close> for a number \<open>q\<close>: an array has an element only at an integer index inside
  it; at any other number, a fraction included, the read gives \<open>undefined\<close>.
\<close>

definition js_index :: "'a list \<Rightarrow> rat \<Rightarrow> 'a option" where
  "js_index xs q =
     (if of_int \<lfloor>q\<rfloor> = q \<and> 0 \<le> q \<and> nat \<lfloor>q\<rfloor> < length xs then Some (xs ! nat \<lfloor>q\<rfloor>) else None)"

text \<open>
  The body of the inner loop of \<open>MirToRos\<close> for the cell number \<open>k = width * y + x\<close>.
  \<open>/\<close> is the division of numbers, not of integers.  \<open>undefined >> offset\<close> is 0.
\<close>

definition unpack_cell :: "byte list \<Rightarrow> nat \<Rightarrow> byte" where
  "unpack_cell packed k =
     (let index = (of_nat k :: rat) / 4;
          offset = 6 - ((k mod 4) * 2);
          value = js_index packed index
      in case value of None \<Rightarrow> 0 | Some v \<Rightarrow> drop_bit offset v AND 3)"

text \<open>
  The two loops, \<open>y\<close> below \<open>width\<close> and \<open>x\<close> below \<open>height\<close>; a store outside the
  output array is ignored.
\<close>

definition unpack_loop :: "byte list \<Rightarrow> nat \<Rightarrow> nat \<Rightarrow> byte list \<Rightarrow> byte list" where
  "unpack_loop packed w h out =
     fold (\<lambda>y out. fold (\<lambda>x out. out[w * y + x := unpack_cell packed (w * y + x)]) [0..<h] out)
       [0..<w] out"

text \<open>
  \<open>MirToRos\<close>.  The output array is as long as the packed input
  (\<open>new Int8Array(undefined)\<close> is empty).  A loop whose bound is \<open>undefined\<close> does not
  run.  Without a data array the first iteration throws a \<open>TypeError\<close> at
  \<open>data![index]\<close>.
\<close>

definition MirToRos :: "costmap_data \<Rightarrow> error + partial_grid" where
  "MirToRos m =
     (let n = (case c_data m of None \<Rightarrow> 0 | Some d \<Rightarrow> length d);
          occupancy_grid_data = replicate n (0 :: byte);
          w = (case c_width m of None \<Rightarrow> 0 | Some w \<Rightarrow> w);
          h = (case c_height m of None \<Rightarrow> 0 | Some h \<Rightarrow> h)
      in case c_data m of
           None \<Rightarrow>
             if 0 < w \<and> 0 < h then Inl TypeError
             else Inr \<lparr>p_info = Some \<lparr>p_resolution = c_resolution m, p_width = c_width m,
                         p_height = c_height m,
                         p_origin = Some \<lparr>p_position = Some \<lparr>p_x = c_offset_x m, p_y = c_offset_y m, p_z = Some 0\<rparr>,
                                          p_orientation = Some \<lparr>p_qx = Some 0, p_qy = Some 0, p_qz = Some 0, p_qw = Some 1\<rparr>\<rparr>\<rparr>,
                       p_data = Some occupancy_grid_data\<rparr>
         | Some packed \<Rightarrow>
             Inr \<lparr>p_info = Some \<lparr>p_resolution = c_resolution m, p_width = c_width m,
                    p_height = c_height m,
                    p_origin = Some \<lparr>p_position = Some \<lparr>p_x = c_offset_x m, p_y = c_offset_y m, p_z = Some 0\<rparr>,
                                     p_orientation = Some \<lparr>p_qx = Some 0, p_qy = Some 0, p_qz = Some 0, p_qw = Some 1\<rparr>\<rparr>\<rparr>,
                  p_data = Some (unpack_loop packed w h occupancy_grid_data)\<rparr>)"

definition handleCostmapData ::
  "(byte list \<Rightarrow> byte list option) \<Rightarrow> scene \<times> (string \<rightharpoonup> renderable) \<Rightarrow> string \<Rightarrow> costmap_data \<Rightarrow> int
     \<Rightarrow> error + (scene \<times> (string \<rightharpoonup> renderable))" where
  "handleCostmapData png st tp m rt =
     (case MirToRos m of
        Inl e \<Rightarrow> Inl e
      | Inr new_msg \<Rightarrow> handleOccupancyGrid png st tp new_msg rt)"


section \<open>Pose arrays\<close>

subsection \<open>Numbers that may be undefined\<close>

text \<open>
  The gradient parameter is a quotient of two integers whose divisor may be 0.  The
  division of numbers gives \<open>NaN\<close> for \<open>0 / 0\<close> and an infinity for any other
  division by 0.
\<close>

datatype number = Num rat | PosInfinity | NegInfinity | NaN

definition js_div :: "int \<Rightarrow> int \<Rightarrow> number" where
  "js_div a b =
     (if b \<noteq> 0 then Num (of_int a / of_int b)
      else if a = 0 then NaN
      else if 0 < a then PosInfinity
      else NegInfinity)"

subsection \<open>Data model\<close>

datatype display_type = Axis | Arrow | Line

text \<open>\<open>ColorRGBA\<close>: the components r, g, b and a.\<close>

type_synonym color = "number \<times> number \<times> number \<times> number"

record settings =
  s_visible :: bool
  s_type :: display_type
  axisScale :: real
  arrowScale :: "real \<times> real \<times> real"
  lineWidth :: real
  gradient :: "string \<times> string"
  trolley :: bool

text \<open>
  What the code takes from modules that are not under src/: the constant
  \<open>AXIS_LENGTH\<close>, \<open>stringToRgba\<close> and \<open>rgbaGradient\<close> of the colour module (without
  their output argument), the rotation \<open>setFromAxisAngle\<close> of three.js about the z
  axis, and the number \<open>Math.PI\<close>.  The angle given to \<open>setFromAxisAngle\<close> is
  \<open>None\<close> when one of its summands is \<open>undefined\<close>.
\<close>

record lib =
  AXIS_LENGTH :: real
  stringToRgba :: "string \<Rightarrow> color"
  rgbaGradient :: "color \<Rightarrow> color \<Rightarrow> number \<Rightarrow> color"
  setFromAxisAngleZ :: "real option \<Rightarrow> quaternion"
  Math_PI :: real

text \<open>\<open>createArrowMarker(scale, color)\<close> of the Poses module: the marker of an arrow.\<close>

record marker =
  m_scale :: "real \<times> real \<times> real"
  m_color :: color

text \<open>The fields of the marker of \<open>createLineStripMarker\<close> that vary.\<close>

record line_marker =
  lm_width :: real
  lm_points :: "vec3 list"
  lm_colors :: "color list"

text \<open>
  Modelled from the spec: the classes \<open>Axis\<close>, \<open>RenderableArrow\<close> and
  \<open>RenderableLineStrip\<close>, which are not under src/.  Section 4.3 has a child
  constructed by the factory, appended to the pool and attached to the scene graph, and
  section 3 has the visibility of a child toggled: a child has an identity, a
  visibility flag, which is on for a new child, its appearance (a scale or a marker)
  and a position and rotation, those of \<open>makePose()\<close> at first.
\<close>

record axis =
  axis_id :: nat
  axis_visible :: bool
  axis_scale :: "real \<times> real \<times> real"
  axis_pose :: pose

record arrow =
  arrow_id :: nat
  arrow_visible :: bool
  arrow_marker :: "marker"
  arrow_pose :: pose

record line_strip =
  line_id :: nat
  line_marker :: "line_marker"

text \<open>
  A \<open>PoseArrayRenderable\<close>: the pools of its user data, the identities of the objects
  attached to it in the scene graph (\<open>add\<close> and \<open>remove\<close>), those on which
  \<open>dispose()\<close> was called, in call order, and the next unused identity.  The
  timestamps, the frame and the original message are left out.
\<close>

record pa_renderable =
  pa_settings :: settings
  poseArrayMessage :: "pose list"
  axes :: "axis list"
  arrows :: "arrow list"
  trolley_arrows :: "arrow list"
  trolley_numbers :: "real list"
  robot_angle :: "real list"
  trolley_length :: real
  lineStrip :: "line_strip option"
  children :: "nat list"
  pa_disposed :: "nat list"
  pa_next_id :: nat

definition makePose :: pose where
  "makePose = \<lparr>position = \<lparr>vx = 0, vy = 0, vz = 0\<rparr>,
               orientation = \<lparr>qx = 0, qy = 0, qz = 0, qw = 1\<rparr>\<rparr>"

subsection \<open>Releasing a pool\<close>

definition removeArrows :: "pa_renderable \<Rightarrow> pa_renderable" where
  "removeArrows r =
     (let ids = map arrow_id (arrows r) in
      r\<lparr>children := filter (\<lambda>c. c \<notin> set ids) (children r),
        pa_disposed := pa_disposed r @ ids,
        arrows := []\<rparr>)"

definition removeAxes :: "pa_renderable \<Rightarrow> pa_renderable" where
  "removeAxes r =
     (let ids = map axis_id (axes r) in
      r\<lparr>children := filter (\<lambda>c. c \<notin> set ids) (children r),
        pa_disposed := pa_disposed r @ ids,
        axes := []\<rparr>)"

definition removeTrolley :: "pa_renderable \<Rightarrow> pa_renderable" where
  "removeTrolley r =
     (let ids = map arrow_id (trolley_arrows r) in
      r\<lparr>children := filter (\<lambda>c. c \<notin> set ids) (children r),
        pa_disposed := pa_disposed r @ ids,
        trolley_arrows := []\<rparr>)"

definition removeLineStrip :: "pa_renderable \<Rightarrow> pa_renderable" where
  "removeLineStrip r =
     (case lineStrip r of
        None \<Rightarrow> r
      | Some l \<Rightarrow>
          r\<lparr>children := filter (\<lambda>c. c \<noteq> line_id l) (children r),
            pa_disposed := pa_disposed r @ [line_id l],
            lineStrip := None\<rparr>)"

subsection \<open>Growing and shrinking a pool\<close>

text \<open>
  The three loops of \<open>_createAxesToMatchPoses\<close>: update the axes that exist, create
  the missing ones, hide the surplus.  \<open>n\<close> is \<open>poseArray.poses.length\<close>.
\<close>

definition createAxesToMatchPoses :: "lib \<Rightarrow> pa_renderable \<Rightarrow> pose list \<Rightarrow> pa_renderable" where
  "createAxesToMatchPoses lib r poses =
     (let scale = axisScale (pa_settings r) * (1 / AXIS_LENGTH lib);
          n = length poses;
          existingUpdateCount = min (length (axes r)) n;
          r = fold (\<lambda>i r. r\<lparr>axes := (axes r)[i := (axes r ! i)\<lparr>axis_visible := True,
                                                  axis_scale := (scale, scale, scale)\<rparr>]\<rparr>)
                [0..<existingUpdateCount] r;
          r = fold (\<lambda>i r.
                 let a = \<lparr>axis_id = pa_next_id r, axis_visible = True,
                          axis_scale = (scale, scale, scale), axis_pose = makePose\<rparr>
                 in r\<lparr>axes := axes r @ [a], children := children r @ [axis_id a],
                      pa_next_id := Suc (pa_next_id r)\<rparr>)
                [length (axes r)..<n] r;
          r = fold (\<lambda>i r. r\<lparr>axes := (axes r)[i := (axes r ! i)\<lparr>axis_visible := False\<rparr>]\<rparr>)
                [n..<length (axes r)] r
      in r)"

text \<open>\<open>createArrowMarkerFromIndex\<close>, the local function of \<open>_createArrowsToMatchPoses\<close>.\<close>

definition createArrowMarkerFromIndex ::
  "lib \<Rightarrow> pa_renderable \<Rightarrow> pose list \<Rightarrow> color \<Rightarrow> color \<Rightarrow> nat \<Rightarrow> marker" where
  "createArrowMarkerFromIndex lib r poses colorStart colorEnd i =
     (let t = js_div (int i) (int (length poses) - 1);
          color = rgbaGradient lib colorStart colorEnd t
      in \<lparr>m_scale = arrowScale (pa_settings r), m_color = color\<rparr>)"

definition createArrowsToMatchPoses ::
  "lib \<Rightarrow> pa_renderable \<Rightarrow> pose list \<Rightarrow> color \<Rightarrow> color \<Rightarrow> pa_renderable" where
  "createArrowsToMatchPoses lib r poses colorStart colorEnd =
     (let n = length poses;
          existingUpdateCount = min (length (arrows r)) n;
          r = fold (\<lambda>i r.
                 let arrowMarker = createArrowMarkerFromIndex lib r poses colorStart colorEnd i
                 in r\<lparr>arrows := (arrows r)[i := (arrows r ! i)\<lparr>arrow_visible := True,
                                                      arrow_marker := arrowMarker\<rparr>]\<rparr>)
                [0..<existingUpdateCount] r;
          r = fold (\<lambda>i r.
                 let arrowMarker = createArrowMarkerFromIndex lib r poses colorStart colorEnd i;
                     a = \<lparr>arrow_id = pa_next_id r, arrow_visible = True,
                          arrow_marker = arrowMarker, arrow_pose = makePose\<rparr>
                 in r\<lparr>arrows := arrows r @ [a], children := children r @ [arrow_id a],
                      pa_next_id := Suc (pa_next_id r)\<rparr>)
                [length (arrows r)..<n] r;
          r = fold (\<lambda>i r. r\<lparr>arrows := (arrows r)[i := (arrows r ! i)\<lparr>arrow_visible := False\<rparr>]\<rparr>)
                [n..<length (arrows r)] r
      in r)"

definition trolleyMarker :: "pa_renderable \<Rightarrow> marker" where
  "trolleyMarker r =
     \<lparr>m_scale = (trolley_length r, 0.025, 0.025), m_color = (Num 0, Num 0, Num 1, Num 1)\<rparr>"

definition createTrolleyArrowsToMatchPoses :: "pa_renderable \<Rightarrow> pose list \<Rightarrow> pa_renderable" where
  "createTrolleyArrowsToMatchPoses r poses =
     (let n = length poses;
          existingUpdateCount = min (length (trolley_arrows r)) n;
          r = fold (\<lambda>i r.
                 r\<lparr>trolley_arrows := (trolley_arrows r)[i := (trolley_arrows r ! i)
                       \<lparr>arrow_visible := True, arrow_marker := trolleyMarker r\<rparr>]\<rparr>)
                [0..<existingUpdateCount] r;
          r = fold (\<lambda>i r.
                 let a = \<lparr>arrow_id = pa_next_id r, arrow_visible = True,
                          arrow_marker = trolleyMarker r, arrow_pose = makePose\<rparr>
                 in r\<lparr>trolley_arrows := trolley_arrows r @ [a],
                      children := children r @ [arrow_id a],
                      pa_next_id := Suc (pa_next_id r)\<rparr>)
                [length (trolley_arrows r)..<n] r;
          r = fold (\<lambda>i r. r\<lparr>trolley_arrows := (trolley_arrows r)[i := (trolley_arrows r ! i)
                                \<lparr>arrow_visible := False\<rparr>]\<rparr>)
                [n..<length (trolley_arrows r)] r
      in r)"

subsection \<open>Placing the children\<close>

text \<open>
  \<open>setObjectPose\<close> and \<open>setObjectPoseTrolley\<close>, and the loops of
  \<open>_updatePoseArrayRenderable\<close> that call them for every pose.  The pool is at least
  as long as the pose array when these loops run.
\<close>

definition setObjectPose_axes :: "pose list \<Rightarrow> pa_renderable \<Rightarrow> pa_renderable" where
  "setObjectPose_axes poses r =
     fold (\<lambda>i r. r\<lparr>axes := (axes r)[i := (axes r ! i)\<lparr>axis_pose := poses ! i\<rparr>]\<rparr>)
       [0..<length poses] r"

definition setObjectPose_arrows :: "pose list \<Rightarrow> pa_renderable \<Rightarrow> pa_renderable" where
  "setObjectPose_arrows poses r =
     fold (\<lambda>i r. r\<lparr>arrows := (arrows r)[i := (arrows r ! i)\<lparr>arrow_pose := poses ! i\<rparr>]\<rparr>)
       [0..<length poses] r"

definition trolley_heading :: "lib \<Rightarrow> pa_renderable \<Rightarrow> nat \<Rightarrow> real option" where
  "trolley_heading lib r i =
     (case (typed_get (robot_angle r) i, typed_get (trolley_numbers r) i) of
        (Some robot, Some trolley_angle) \<Rightarrow> Some (robot + trolley_angle + Math_PI lib)
      | _ \<Rightarrow> None)"

definition setObjectPoseTrolley_all :: "lib \<Rightarrow> pose list \<Rightarrow> pa_renderable \<Rightarrow> pa_renderable" where
  "setObjectPoseTrolley_all lib poses r =
     fold (\<lambda>i r. r\<lparr>trolley_arrows := (trolley_arrows r)[i := (trolley_arrows r ! i)
              \<lparr>arrow_pose := \<lparr>position = position (poses ! i),
                              orientation = setFromAxisAngleZ lib (trolley_heading lib r i)\<rparr>\<rparr>]\<rparr>)
       [0..<length poses] r"

subsection \<open>The line strip\<close>

definition createLineStripMarker :: "lib \<Rightarrow> pose list \<Rightarrow> real \<Rightarrow> color \<Rightarrow> color \<Rightarrow> line_marker" where
  "createLineStripMarker lib poses lw colorStart colorEnd =
     (let colors = map (\<lambda>i. rgbaGradient lib colorStart colorEnd
                              (js_div (int i) (int (length poses) - 1)))
                     [0..<length poses]
      in \<lparr>lm_width = lw, lm_points = map position poses, lm_colors = colors\<rparr>)"

subsection \<open>_updatePoseArrayRenderable\<close>

text \<open>\<open>vecEqual\<close> of the math module compares two tuples component by component.\<close>

definition updatePoseArrayRenderable ::
  "lib \<Rightarrow> pa_renderable \<Rightarrow> pose list \<Rightarrow> settings \<Rightarrow> pa_renderable" where
  "updatePoseArrayRenderable lib r poseArray s =
     (let prevSettings = pa_settings r;
          axisOrArrowSettingsChanged =
            (trolley s \<noteq> trolley prevSettings
             \<or> s_type s \<noteq> s_type prevSettings
             \<or> axisScale s \<noteq> axisScale prevSettings
             \<or> \<not> (arrowScale s = arrowScale prevSettings)
             \<or> \<not> (gradient s = gradient prevSettings)
             \<or> (length (arrows r) = 0 \<and> length (axes r) = 0));
          r = r\<lparr>poseArrayMessage := poseArray, pa_settings := s\<rparr>;
          colorStart = stringToRgba lib (fst (gradient s));
          colorEnd = stringToRgba lib (snd (gradient s));
          r = (if axisOrArrowSettingsChanged then
                 let r = (if trolley (pa_settings r) then removeTrolley r else r)
                 in case s_type (pa_settings r) of
                      Axis \<Rightarrow> removeLineStrip (removeArrows r)
                    | Arrow \<Rightarrow> removeLineStrip (removeAxes r)
                    | Line \<Rightarrow>
                        let r = removeAxes (removeArrows r);
                            lineStripMarker =
                              createLineStripMarker lib poseArray (lineWidth s) colorStart colorEnd;
                            r = (case lineStrip r of
                                   Some l \<Rightarrow> r
                                 | None \<Rightarrow>
                                     r\<lparr>lineStrip := Some \<lparr>line_id = pa_next_id r,
                                                           line_marker = lineStripMarker\<rparr>,
                                       children := children r @ [pa_next_id r],
                                       pa_next_id := Suc (pa_next_id r)\<rparr>)
                        in r\<lparr>lineStrip := map_option (\<lambda>l. l\<lparr>line_marker := lineStripMarker\<rparr>)
                                             (lineStrip r)\<rparr>
               else r);
          r = (if trolley s then
                 setObjectPoseTrolley_all lib poseArray (createTrolleyArrowsToMatchPoses r poseArray)
               else r)
      in case s_type s of
           Axis \<Rightarrow> setObjectPose_axes poseArray (createAxesToMatchPoses lib r poseArray)
         | Arrow \<Rightarrow>
             setObjectPose_arrows poseArray
               (createArrowsToMatchPoses lib r poseArray colorStart colorEnd)
         | Line \<Rightarrow>
             let lineStripMarker =
                   createLineStripMarker lib poseArray (lineWidth s) colorStart colorEnd
             in r\<lparr>lineStrip := map_option (\<lambda>l. l\<lparr>line_marker := lineStripMarker\<rparr>)
                                  (lineStrip r)\<rparr>)"

subsection \<open>The vendor robot-state-path adapter\<close>

record mir_robot_state =
  pose_x :: "real option"
  pose_y :: "real option"
  pose_theta :: "real option"
  velocity_x :: "real option"
  velocity_theta :: "real option"
  hook_angle :: "real option"

text \<open>
  \<open>new THREE.Euler(x, y, z)\<close>: the constructor of three.js has the default 0 for an
  argument that is \<open>undefined\<close>.
\<close>

definition Euler :: "real \<Rightarrow> real \<Rightarrow> real option \<Rightarrow> real \<times> real \<times> real" where
  "Euler x y z = (x, y, case z of None \<Rightarrow> 0 | Some z \<Rightarrow> z)"

text \<open>
  \<open>normalizeMirPose\<close>.  \<open>setFromEuler\<close> is the rotation
  \<open>THREE.Quaternion.setFromEuler\<close> of three.js, a parameter.
\<close>

definition normalizeMirPose ::
  "(real \<times> real \<times> real \<Rightarrow> quaternion) \<Rightarrow> mir_robot_state option \<Rightarrow> pose" where
  "normalizeMirPose setFromEuler input_pose =
     (case input_pose of
        None \<Rightarrow> normalizePose None
      | Some p \<Rightarrow>
          let euler = Euler (- 1 * (case velocity_theta p of None \<Rightarrow> 0 | Some v \<Rightarrow> v)) 0
                        (pose_theta p);
              q1 = setFromEuler euler
          in \<lparr>position = \<lparr>vx = (case pose_x p of None \<Rightarrow> 0 | Some v \<Rightarrow> v),
                           vy = (case pose_y p of None \<Rightarrow> 0 | Some v \<Rightarrow> v),
                           vz = (case velocity_x p of None \<Rightarrow> 0 | Some v \<Rightarrow> v)\<rparr>,
              orientation = q1\<rparr>)"

text \<open>\<open>normalizeMirPoseArray\<close>, without the header: the path of a message, which may be missing.\<close>

definition normalizeMirPoseArray ::
  "(real \<times> real \<times> real \<Rightarrow> quaternion) \<Rightarrow> mir_robot_state option list option option \<Rightarrow> pose list" where
  "normalizeMirPoseArray setFromEuler poseArray =
     (case poseArray of
        None \<Rightarrow> []
      | Some m \<Rightarrow> (case m of None \<Rightarrow> [] | Some path \<Rightarrow> map (normalizeMirPose setFromEuler) path))"

section \<open>Notions used in the statements\<close>

subsection \<open>Textures\<close>

text \<open>The four bytes of the pixel of cell \<open>i\<close> in an RGBA buffer.\<close>

definition pixel_at :: "byte list \<Rightarrow> nat \<Rightarrow> rgba" where
  "pixel_at rgba i = (rgba ! (i * 4), rgba ! (i * 4 + 1), rgba ! (i * 4 + 2), rgba ! (i * 4 + 3))"

text \<open>A texture whose buffer has four bytes for each cell of its image.\<close>

definition tex_wf :: "texture \<Rightarrow> bool" where
  "tex_wf t = (length (image_data t) = image_width t * image_height t * 4)"

text \<open>The first four bytes of the PNG signature, as unsigned bytes.\<close>

definition png_magic :: "byte list" where
  "png_magic = [0x89, 0x50, 0x4E, 0x47]"

text \<open>The signed 8-bit value with the bits of an unsigned one.\<close>

definition signed_of_unsigned :: "int \<Rightarrow> int" where
  "signed_of_unsigned u = (if u < 128 then u else u - 256)"

subsection \<open>Diagnostics\<close>

fun is_substring :: "string \<Rightarrow> string \<Rightarrow> bool" where
  "is_substring p [] = (p = [])"
| "is_substring p (c # cs) = (take (length p) (c # cs) = p \<or> is_substring p cs)"

text \<open>A message names a number when the decimal digits of the number occur in it.\<close>

definition names_number :: "string \<Rightarrow> nat \<Rightarrow> bool" where
  "names_number message n = is_substring (string_of_nat n) message"

definition absent_or_zero :: "nat option \<Rightarrow> bool" where
  "absent_or_zero n = (case n of None \<Rightarrow> True | Some k \<Rightarrow> k = 0)"

definition absent_or_empty :: "byte list option \<Rightarrow> bool" where
  "absent_or_empty d = (case d of None \<Rightarrow> True | Some xs \<Rightarrow> xs = [])"

subsection \<open>The one-way palette as a table\<close>

text \<open>
  The eight wedges of the one-way palette, in the words of the specification: a mask, the
  colour channel it feeds and the bit it sets there.  A wedge applies to a value when
  the value has all the bits of the mask.
\<close>

datatype channel = Red | Green | Blue

definition wedges :: "(byte \<times> channel \<times> byte) list" where
  "wedges =
     [(0b11000111, Red, 0b10000000), (0b10001111, Green, 0b01000000),
      (0b00011111, Red, 0b00100000), (0b00111110, Blue, 0b10000000),
      (0b01111100, Green, 0b00100000), (0b11111000, Green, 0b10000000),
      (0b11110001, Red, 0b01000000), (0b11100011, Blue, 0b01000000)]"

definition wedge_bits :: "channel \<Rightarrow> byte \<Rightarrow> byte" where
  "wedge_bits c v =
     fold (\<lambda>(m, ch, b) acc. if ch = c \<and> v AND m = m then acc OR b else acc) wedges 0"

subsection \<open>Example inputs for grids\<close>

definition no_png :: "byte list \<Rightarrow> byte list option" where
  "no_png d = None"

definition stub_png :: "byte list \<Rightarrow> byte list option" where
  "stub_png d = Some [0xFF, 0x01]"

definition scene0 :: scene where
  "scene0 = \<lparr>errors = [], disposed = [], next_id = 1\<rparr>"

definition texture0 :: texture where
  "texture0 = \<lparr>tex_id = 0, image_width = 1, image_height = 1, image_data = [9, 9, 9, 9],
                needsUpdate = False\<rparr>"

definition grid_1x1 :: occupancy_grid where
  "grid_1x1 = \<lparr>info = \<lparr>resolution = 1, width = 1, height = 1, origin = makePose\<rparr>, data = [0xFF]\<rparr>"

definition grid_4x4_15 :: occupancy_grid where
  "grid_4x4_15 = \<lparr>info = \<lparr>resolution = 1, width = 4, height = 4, origin = makePose\<rparr>,
                   data = replicate 15 0\<rparr>"

definition grid_2x1 :: occupancy_grid where
  "grid_2x1 = \<lparr>info = \<lparr>resolution = 1, width = 2, height = 1, origin = makePose\<rparr>, data = [0, 224]\<rparr>"

definition grid_png :: occupancy_grid where
  "grid_png = \<lparr>info = \<lparr>resolution = 1, width = 2, height = 1, origin = makePose\<rparr>,
                data = [0x89, 0x50, 0x4E, 0x47, 0x0D]\<rparr>"

definition renderable0 :: renderable where
  "renderable0 = \<lparr>topic = ''/map'', occupancyGrid = grid_1x1, rpose = makePose, receiveTime = 0,
                   texture = texture0, material_map = 0, scale = (1, 1, 1)\<rparr>"

definition empty_message :: partial_grid where
  "empty_message = \<lparr>p_info = None, p_data = None\<rparr>"

definition stale_renderables :: "string \<rightharpoonup> renderable" where
  "stale_renderables = [''/map'' \<mapsto> renderable0]"

subsection \<open>Pools in closed form\<close>

text \<open>
  What the three passes of a synchronisation do to one child: an existing child is
  shown and restyled, a surplus child is hidden, a missing child is created with a new
  identity.
\<close>

definition show_axis :: "real \<Rightarrow> axis \<Rightarrow> axis" where
  "show_axis s a = a\<lparr>axis_visible := True, axis_scale := (s, s, s)\<rparr>"

definition hide_axis :: "axis \<Rightarrow> axis" where
  "hide_axis a = a\<lparr>axis_visible := False\<rparr>"

definition new_axis :: "real \<Rightarrow> nat \<Rightarrow> axis" where
  "new_axis s i = \<lparr>axis_id = i, axis_visible = True, axis_scale = (s, s, s), axis_pose = makePose\<rparr>"

definition show_arrow :: "marker \<Rightarrow> arrow \<Rightarrow> arrow" where
  "show_arrow mk a = a\<lparr>arrow_visible := True, arrow_marker := mk\<rparr>"

definition hide_arrow :: "arrow \<Rightarrow> arrow" where
  "hide_arrow a = a\<lparr>arrow_visible := False\<rparr>"

definition new_arrow :: "marker \<Rightarrow> nat \<Rightarrow> arrow" where
  "new_arrow mk i = \<lparr>arrow_id = i, arrow_visible = True, arrow_marker = mk, arrow_pose = makePose\<rparr>"

text \<open>The marker of the arrow at index \<open>i\<close> of \<open>n\<close> poses.\<close>

definition gradient_marker :: "lib \<Rightarrow> settings \<Rightarrow> nat \<Rightarrow> color \<Rightarrow> color \<Rightarrow> nat \<Rightarrow> marker" where
  "gradient_marker lib s n colorStart colorEnd i =
     \<lparr>m_scale = arrowScale s,
      m_color = rgbaGradient lib colorStart colorEnd (js_div (int i) (int n - 1))\<rparr>"

text \<open>
  A pool after its synchronisation with a pose array, the new children taking the
  identities from \<open>nid\<close> on, and after the placement of its first children at the
  poses.
\<close>

definition synced_axes :: "real \<Rightarrow> nat \<Rightarrow> pose list \<Rightarrow> axis list \<Rightarrow> axis list" where
  "synced_axes s nid poses xs =
     map (show_axis s) (take (length poses) xs) @ map hide_axis (drop (length poses) xs)
       @ map (new_axis s) [nid..<nid + (length poses - length xs)]"

definition synced_arrows :: "(nat \<Rightarrow> marker) \<Rightarrow> nat \<Rightarrow> pose list \<Rightarrow> arrow list \<Rightarrow> arrow list" where
  "synced_arrows mk nid poses xs =
     map (\<lambda>i. show_arrow (mk i) (xs ! i)) [0..<min (length xs) (length poses)]
       @ map hide_arrow (drop (length poses) xs)
       @ map (\<lambda>(i, k). new_arrow (mk i) k)
           (zip [length xs..<length poses] [nid..<nid + (length poses - length xs)])"

definition place_axes :: "pose list \<Rightarrow> axis list \<Rightarrow> axis list" where
  "place_axes poses xs =
     map (\<lambda>i. (xs ! i)\<lparr>axis_pose := poses ! i\<rparr>) [0..<length poses] @ drop (length poses) xs"

definition place_arrows :: "pose list \<Rightarrow> arrow list \<Rightarrow> arrow list" where
  "place_arrows poses xs =
     map (\<lambda>i. (xs ! i)\<lparr>arrow_pose := poses ! i\<rparr>) [0..<length poses] @ drop (length poses) xs"

text \<open>
  The condition \<open>axisOrArrowSettingsChanged\<close> of \<open>_updatePoseArrayRenderable\<close>, and the
  identity of the line strip of a renderable, if it has one.
\<close>

definition settings_changed :: "pa_renderable \<Rightarrow> settings \<Rightarrow> bool" where
  "settings_changed r s =
     (trolley s \<noteq> trolley (pa_settings r)
      \<or> s_type s \<noteq> s_type (pa_settings r)
      \<or> axisScale s \<noteq> axisScale (pa_settings r)
      \<or> arrowScale s \<noteq> arrowScale (pa_settings r)
      \<or> gradient s \<noteq> gradient (pa_settings r)
      \<or> (arrows r = [] \<and> axes r = []))"

definition line_ids :: "pa_renderable \<Rightarrow> nat list" where
  "line_ids r = (case lineStrip r of None \<Rightarrow> [] | Some l \<Rightarrow> [line_id l])"

subsection \<open>The costmap as the specification describes it\<close>

text \<open>
  The cell \<open>k\<close> of a packed costmap in the words of the specification: the byte
  \<open>k div 4\<close>, shifted right by \<open>6 - (k mod 4) * 2\<close> bits and masked to 2 bits.
\<close>

definition expected_cell :: "byte list \<Rightarrow> nat \<Rightarrow> byte" where
  "expected_cell packed k = drop_bit (6 - (k mod 4) * 2) (packed ! (k div 4)) AND 3"

subsection \<open>Example inputs for costmaps and pose arrays\<close>

definition costmap_2x2 :: costmap_data where
  "costmap_2x2 = \<lparr>c_data = Some [0b11100100], c_width = Some 2, c_height = Some 2,
                   c_offset_x = Some 0, c_offset_y = Some 0, c_resolution = Some 1\<rparr>"

definition costmap_2x2_padded :: costmap_data where
  "costmap_2x2_padded = \<lparr>c_data = Some [0b11100100, 0, 0, 0], c_width = Some 2, c_height = Some 2,
                   c_offset_x = Some 0, c_offset_y = Some 0, c_resolution = Some 1\<rparr>"

definition lib0 :: lib where
  "lib0 = \<lparr>AXIS_LENGTH = 1,
            stringToRgba = (\<lambda>s. (Num 0, Num 0, Num 0, Num 1)),
            rgbaGradient = (\<lambda>a b t. (t, t, t, t)),
            setFromAxisAngleZ = (\<lambda>a. \<lparr>qx = 0, qy = 0, qz = 0, qw = 1\<rparr>),
            Math_PI = 355 / 113\<rparr>"

definition axis_settings :: settings where
  "axis_settings = \<lparr>s_visible = True, s_type = Axis, axisScale = 1, arrowScale = (1, 1, 1),
                     lineWidth = 1, gradient = (''#7c6bff'', ''#7c6bff80''), trolley = False\<rparr>"

definition arrow_settings :: settings where
  "arrow_settings = axis_settings\<lparr>s_type := Arrow\<rparr>"

definition pose_at :: "real \<Rightarrow> pose" where
  "pose_at x = \<lparr>position = \<lparr>vx = x, vy = 0, vz = 0\<rparr>,
               orientation = \<lparr>qx = 0, qy = 0, qz = 0, qw = 1\<rparr>\<rparr>"

definition axis0 :: "nat \<Rightarrow> axis" where
  "axis0 i = \<lparr>axis_id = i, axis_visible = True, axis_scale = (1, 1, 1), axis_pose = makePose\<rparr>"

definition trolley_arrow0 :: "nat \<Rightarrow> arrow" where
  "trolley_arrow0 i = \<lparr>arrow_id = i, arrow_visible = True,
                        arrow_marker = \<lparr>m_scale = (1, 1, 1), m_color = (Num 0, Num 0, Num 1, Num 1)\<rparr>,
                        arrow_pose = makePose\<rparr>"

definition three_axes :: pa_renderable where
  "three_axes = \<lparr>pa_settings = axis_settings, poseArrayMessage = [pose_at 1, pose_at 2, pose_at 3],
                  axes = [axis0 0, axis0 1, axis0 2], arrows = [], trolley_arrows = [],
                  trolley_numbers = [], robot_angle = [], trolley_length = 0, lineStrip = None,
                  children = [0, 1, 2], pa_disposed = [], pa_next_id = 3\<rparr>"

definition with_trolley :: pa_renderable where
  "with_trolley = \<lparr>pa_settings = axis_settings\<lparr>trolley := True\<rparr>,
                    poseArrayMessage = [pose_at 1, pose_at 2],
                    axes = [axis0 0, axis0 1], arrows = [],
                    trolley_arrows = [trolley_arrow0 2, trolley_arrow0 3],
                    trolley_numbers = [0, 0], robot_angle = [0, 0], trolley_length = 1,
                    lineStrip = None, children = [0, 1, 2, 3], pa_disposed = [], pa_next_id = 4\<rparr>"

section \<open>Properties of the occupancy grids\<close>

subsection \<open>Bytes\<close>

lemma uint8_of_sint: "uint8_of (sint (b :: byte)) = b"
  by (simp add: uint8_of_def)

lemma int8_of_uint: "int8_of (uint (b :: byte)) = b"
  by (simp add: int8_of_def)

lemma shift_mod_256:
  fixes u :: int
  assumes "0 \<le> u" and "u < 256"
  shows "(u + 128) mod 256 - 128 = signed_of_unsigned u"
proof (cases "u < 128")
  case True
  then have "(u + 128) mod 256 = u + 128"
    using assms by (intro mod_pos_pos_trivial) simp_all
  then show ?thesis using True by (simp add: signed_of_unsigned_def)
next
  case False
  have e: "u + 128 = (u - 128) + 256" by arith
  have "(u + 128) mod 256 = (u - 128) mod 256"
    by (subst e) (simp only: mod_add_self2)
  also have "\<dots> = u - 128"
    using False assms by (intro mod_pos_pos_trivial) simp_all
  finally show ?thesis using False by (simp add: signed_of_unsigned_def)
qed

lemma sint_byte: "sint (b :: byte) = signed_of_unsigned (uint b)"
proof -
  have "uint b < 256" using uint_lt2p [of b] by simp
  moreover have "0 \<le> uint b" by simp
  ultimately have "(uint b + 128) mod 256 - 128 = signed_of_unsigned (uint b)"
    by (rule shift_mod_256 [rotated])
  then show ?thesis
    by (simp add: sint_uint signed_take_bit_eq_take_bit_shift take_bit_eq_mod)
qed

lemma sint_sig:
  "sint (b :: byte) = - 119 \<longleftrightarrow> b = 0x89"
  "sint (b :: byte) = 80 \<longleftrightarrow> b = 0x50"
  "sint (b :: byte) = 78 \<longleftrightarrow> b = 0x4E"
  "sint (b :: byte) = 71 \<longleftrightarrow> b = 0x47"
  using word_eq_iff_signed [where ?'a = int and ?'b = 8, of b "0x89"]
    word_eq_iff_signed [where ?'a = int and ?'b = 8, of b "0x50"]
    word_eq_iff_signed [where ?'a = int and ?'b = 8, of b "0x4E"]
    word_eq_iff_signed [where ?'a = int and ?'b = 8, of b "0x47"]
  by simp_all

lemma byte_and_255: "(b :: byte) AND 0xFF = b"
proof -
  have "(0xFF :: byte) = - 1" by simp
  then show ?thesis by (simp only: and.right_neutral)
qed

lemma cell_value_eq: "i < length d \<Longrightarrow> cell_value d i = d ! i"
  by (simp add: cell_value_def typed_get_def byte_and_255)

subsection \<open>Painting a texture\<close>

lemma length_write_pixel: "length (write_pixel p d i rgba) = length rgba"
  by (simp add: write_pixel_def Let_def split: prod.splits)

lemma length_fold_write_pixel: "length (fold (write_pixel p d) is rgba) = length rgba"
  by (induction "is" arbitrary: rgba) (simp_all add: length_write_pixel)

lemma length_updateTexture: "length (image_data (updateTexture tp tex g)) = length (image_data tex)"
  by (simp add: updateTexture_def Let_def length_fold_write_pixel)

lemma updateTexture_fields:
  "tex_id (updateTexture tp tex g) = tex_id tex"
  "image_width (updateTexture tp tex g) = image_width tex"
  "image_height (updateTexture tp tex g) = image_height tex"
  "needsUpdate (updateTexture tp tex g)"
  by (simp_all add: updateTexture_def Let_def)

lemma pixel_at_write_other: "j \<noteq> i \<Longrightarrow> pixel_at (write_pixel p d j rgba) i = pixel_at rgba i"
  by (auto simp add: write_pixel_def pixel_at_def Let_def split: prod.splits)

lemma pixel_at_write_same:
  "i * 4 + 3 < length rgba \<Longrightarrow> pixel_at (write_pixel p d i rgba) i = p (cell_value d i)"
  by (auto simp add: write_pixel_def pixel_at_def Let_def split: prod.splits)

lemma pixel_at_fold:
  "i < n \<Longrightarrow> i * 4 + 3 < length rgba \<Longrightarrow>
   pixel_at (fold (write_pixel p d) [0..<n] rgba) i = p (cell_value d i)"
proof (induction n)
  case 0
  then show ?case by simp
next
  case (Suc n)
  show ?case
  proof (cases "i = n")
    case True
    then show ?thesis
      using Suc.prems by (simp add: pixel_at_write_same length_fold_write_pixel)
  next
    case False
    then have "i < n" using Suc.prems by simp
    then show ?thesis
      using Suc False by (simp add: pixel_at_write_other)
  qed
qed

lemma one_way_rgba_wedges:
  "one_way_rgba v =
     (wedge_bits Red v, wedge_bits Green v, wedge_bits Blue v, if v = 255 then 0 else 128)"
  by (simp add: one_way_rgba_def wedge_bits_def wedges_def Let_def)

lemma createTexture_fields:
  "tex_id (fst (createTexture sc g)) = next_id sc"
  "image_width (fst (createTexture sc g)) = width (info g)"
  "image_height (fst (createTexture sc g)) = height (info g)"
  "length (image_data (fst (createTexture sc g))) = width (info g) * height (info g) * 4"
  by (simp_all add: createTexture_def Let_def)

lemma createTexture_tex_wf: "tex_wf (fst (createTexture sc g))"
  by (simp add: tex_wf_def createTexture_fields)

lemma updateTexture_tex_wf: "tex_wf t \<Longrightarrow> tex_wf (updateTexture tp t g)"
  by (simp add: tex_wf_def length_updateTexture updateTexture_fields)

text \<open>
  Claim C6.  Under the palette of the channel \<open>/one_way_map\<close>, the pixel of every cell
  of an accepted grid has, in each of its red, green and blue bytes, the bits of the
  wedges of that channel whose mask the cell value contains, combined by OR, and its
  alpha byte is 0 if the value is 255 and 128 otherwise.
\<close>

theorem one_way_palette:
  assumes "i < width (info g) * height (info g)"
    and "length (data g) = width (info g) * height (info g)"
    and "tex_wf tex" and "image_width tex = width (info g)" and "image_height tex = height (info g)"
  shows "pixel_at (image_data (updateTexture ''/one_way_map'' tex g)) i =
           (wedge_bits Red (data g ! i), wedge_bits Green (data g ! i), wedge_bits Blue (data g ! i),
            if data g ! i = 255 then 0 else 128)"
proof -
  have "i * 4 + 3 < length (image_data tex)"
    using assms by (simp add: tex_wf_def)
  then have "pixel_at (image_data (updateTexture ''/one_way_map'' tex g)) i
               = one_way_rgba (cell_value (data g) i)"
    using assms(1) by (simp add: updateTexture_def Let_def palette_of_def pixel_at_fold)
  then show ?thesis
    using assms(1,2) by (simp add: one_way_rgba_wedges cell_value_eq)
qed

text \<open>
  At the value 255 every wedge applies: the bits of the three red, the three green and
  the two blue wedges combine, and the pixel is transparent.
\<close>

theorem one_way_palette_witness:
  "pixel_at (image_data (updateTexture ''/one_way_map'' texture0 grid_1x1)) 0
     = (0xE0, 0xE0, 0xC0, 0)"
proof -
  have "pixel_at (image_data (updateTexture ''/one_way_map'' texture0 grid_1x1)) 0 =
           (wedge_bits Red (data grid_1x1 ! 0), wedge_bits Green (data grid_1x1 ! 0),
            wedge_bits Blue (data grid_1x1 ! 0), if data grid_1x1 ! 0 = 255 then 0 else 128)"
    by (rule one_way_palette) (simp_all add: grid_1x1_def texture0_def tex_wf_def)
  then show ?thesis
    by (simp add: grid_1x1_def wedge_bits_def wedges_def)
qed

subsection \<open>The format dispatch\<close>

lemma has_png_signature_magic:
  "has_png_signature d \<longleftrightarrow> take 4 d = png_magic"
proof (cases d)
  case Nil
  then show ?thesis by (simp add: has_png_signature_def typed_get_def png_magic_def)
next
  case d1: (Cons a d1)
  show ?thesis
  proof (cases d1)
    case Nil
    then show ?thesis using d1 by (simp add: has_png_signature_def typed_get_def png_magic_def)
  next
    case d2: (Cons b d2)
    show ?thesis
    proof (cases d2)
      case Nil
      then show ?thesis using d1 d2
        by (simp add: has_png_signature_def typed_get_def png_magic_def)
    next
      case d3: (Cons c d3)
      show ?thesis
      proof (cases d3)
        case Nil
        then show ?thesis using d1 d2 d3
          by (simp add: has_png_signature_def typed_get_def png_magic_def)
      next
        case (Cons e d4)
        then show ?thesis using d1 d2 d3
          by (simp add: has_png_signature_def typed_get_def png_magic_def png_signature_def sint_sig)
      qed
    qed
  qed
qed

lemma decode_png_eq:
  "decode_png png g =
     (if take 4 (data g) = png_magic then
        (case png (data g) of None \<Rightarrow> Inl PngLoadError | Some px \<Rightarrow> Inr (g\<lparr>data := px\<rparr>))
      else Inr g)"
  by (simp add: decode_png_def has_png_signature_magic uint8_of_sint int8_of_uint split: option.splits)

lemma updateOccupancyGridRenderable_eq:
  "updateOccupancyGridRenderable png sc r g rt =
     (if take 4 (data g) = png_magic then
        (case png (data g) of
           None \<Rightarrow> Inl PngLoadError
         | Some px \<Rightarrow> Inr (updateAfterDispatch sc r (g\<lparr>data := px\<rparr>) rt))
      else Inr (updateAfterDispatch sc r g rt))"
  by (simp add: updateOccupancyGridRenderable_def decode_png_eq split: option.splits)

lemma updateAfterDispatch_grid:
  "occupancyGrid (snd (updateAfterDispatch sc r g rt)) = g"
  "topic (snd (updateAfterDispatch sc r g rt)) = topic r"
  by (simp_all add: updateAfterDispatch_def Let_def createTexture_def split: prod.splits)

text \<open>
  Claim C7.  An update decodes the payload as a PNG image exactly when its first four
  bytes are those of the PNG signature: then the decoded pixel bytes, stored as signed
  8-bit values, are the buffer of the grid that the dimension check and the rest of the
  update see (and an exception of the decoder ends the update); otherwise the payload
  goes through as it is.  The stored grid is the one that was checked.
\<close>

theorem format_dispatch:
  "updateOccupancyGridRenderable png sc r g rt =
     (if take 4 (data g) = png_magic then
        (case png (data g) of
           None \<Rightarrow> Inl PngLoadError
         | Some px \<Rightarrow>
             Inr (updateAfterDispatch sc r (g\<lparr>data := map (\<lambda>p. int8_of (uint p)) px\<rparr>) rt))
      else Inr (updateAfterDispatch sc r g rt))
   \<and> sint (int8_of (uint (p :: byte))) = signed_of_unsigned (uint p)
   \<and> occupancyGrid (snd (updateAfterDispatch sc r g' rt)) = g'"
  by (simp add: updateOccupancyGridRenderable_eq int8_of_uint sint_byte updateAfterDispatch_grid
      split: option.splits)

theorem format_dispatch_witness:
  "take 4 (data grid_png) = png_magic
   \<and> updateOccupancyGridRenderable stub_png scene0 renderable0 grid_png 7
       = Inr (updateAfterDispatch scene0 renderable0 (grid_png\<lparr>data := [0xFF, 0x01]\<rparr>) 7)
   \<and> sint (int8_of (uint (0xFF :: byte))) = - 1"
proof -
  have m: "take 4 (data grid_png) = png_magic"
    by (simp add: grid_png_def png_magic_def)
  have p: "stub_png (data grid_png) = Some [0xFF, 0x01]"
    by (simp add: stub_png_def)
  show ?thesis
    using format_dispatch [of stub_png scene0 renderable0 grid_png 7 "0xFF"] m p
    by (simp add: int8_of_def signed_of_unsigned_def)
qed

subsection \<open>The dimension check\<close>

lemma updateAfterDispatch_reject:
  assumes "length (data g) \<noteq> width (info g) * height (info g)"
  shows "updateAfterDispatch sc r g rt =
           (sc\<lparr>errors := errors sc @ [(topic r, INVALID_OCCUPANCY_GRID, invalid_message g)]\<rparr>,
            r\<lparr>occupancyGrid := g, rpose := origin (info g), receiveTime := rt\<rparr>)"
  using assms by (simp add: updateAfterDispatch_def invalidOccupancyGridError_def Let_def)

lemma updateAfterDispatch_same:
  assumes "length (data g) = width (info g) * height (info g)"
    and "width (info g) = image_width (texture r)" and "height (info g) = image_height (texture r)"
  shows "updateAfterDispatch sc r g rt =
           (sc, r\<lparr>occupancyGrid := g, rpose := origin (info g), receiveTime := rt,
                  texture := updateTexture (topic r) (texture r) g,
                  scale := (resolution (info g) * real (width (info g)),
                            resolution (info g) * real (height (info g)), 1)\<rparr>)"
  using assms by (simp add: updateAfterDispatch_def Let_def)

lemma updateAfterDispatch_resize:
  assumes "length (data g) = width (info g) * height (info g)"
    and "width (info g) \<noteq> image_width (texture r) \<or> height (info g) \<noteq> image_height (texture r)"
  shows "updateAfterDispatch sc r g rt =
           (sc\<lparr>disposed := disposed sc @ [tex_id (texture r)], next_id := Suc (next_id sc)\<rparr>,
            r\<lparr>occupancyGrid := g, rpose := origin (info g), receiveTime := rt,
              material_map := next_id sc,
              texture := updateTexture (topic r) (fst (createTexture sc g)) g,
              scale := (resolution (info g) * real (width (info g)),
                        resolution (info g) * real (height (info g)), 1)\<rparr>)"
  using assms by (auto simp add: updateAfterDispatch_def Let_def createTexture_def)

lemma updateAfterDispatch_accept:
  assumes len: "length (data g) = width (info g) * height (info g)"
    and wf: "tex_wf (texture r)"
    and res: "updateAfterDispatch sc r g rt = (sc', r')"
  shows "length (image_data (texture r')) = width (info g) * height (info g) * 4
         \<and> image_width (texture r') = width (info g)
         \<and> image_height (texture r') = height (info g)
         \<and> (if width (info g) \<noteq> image_width (texture r) \<or> height (info g) \<noteq> image_height (texture r)
            then disposed sc' = disposed sc @ [tex_id (texture r)]
                 \<and> tex_id (texture r') = next_id sc \<and> next_id sc' = Suc (next_id sc)
                 \<and> material_map r' = tex_id (texture r')
            else disposed sc' = disposed sc
                 \<and> tex_id (texture r') = tex_id (texture r) \<and> next_id sc' = next_id sc
                 \<and> material_map r' = material_map r)"
proof (cases "width (info g) \<noteq> image_width (texture r) \<or> height (info g) \<noteq> image_height (texture r)")
  case True
  from updateAfterDispatch_resize [OF len True, of sc rt] res
  have sc': "sc' = sc\<lparr>disposed := disposed sc @ [tex_id (texture r)], next_id := Suc (next_id sc)\<rparr>"
    and r': "r' = r\<lparr>occupancyGrid := g, rpose := origin (info g), receiveTime := rt,
              material_map := next_id sc,
              texture := updateTexture (topic r) (fst (createTexture sc g)) g,
              scale := (resolution (info g) * real (width (info g)),
                        resolution (info g) * real (height (info g)), 1)\<rparr>"
    by simp_all
  show ?thesis using True
    by (simp add: sc' r' length_updateTexture updateTexture_fields createTexture_fields)
next
  case False
  then have same: "width (info g) = image_width (texture r)" "height (info g) = image_height (texture r)"
    by simp_all
  from updateAfterDispatch_same [OF len same, of sc rt] res
  have sc': "sc' = sc"
    and r': "r' = r\<lparr>occupancyGrid := g, rpose := origin (info g), receiveTime := rt,
                  texture := updateTexture (topic r) (texture r) g,
                  scale := (resolution (info g) * real (width (info g)),
                            resolution (info g) * real (height (info g)), 1)\<rparr>"
    by simp_all
  show ?thesis using False wf
    by (simp add: sc' r' length_updateTexture updateTexture_fields tex_wf_def)
qed

lemma update_Inr_cases:
  assumes "updateOccupancyGridRenderable png sc r g rt = Inr (sc', r')"
  shows "info (occupancyGrid r') = info g
         \<and> updateAfterDispatch sc r (occupancyGrid r') rt = (sc', r')"
proof (cases "take 4 (data g) = png_magic")
  case True
  with assms obtain px where px: "png (data g) = Some px"
    and eq: "updateAfterDispatch sc r (g\<lparr>data := px\<rparr>) rt = (sc', r')"
    by (auto simp add: updateOccupancyGridRenderable_eq split: option.splits)
  from updateAfterDispatch_grid(1) [of sc r "g\<lparr>data := px\<rparr>" rt] eq
  have "occupancyGrid r' = g\<lparr>data := px\<rparr>" by simp
  then show ?thesis using eq by simp
next
  case False
  with assms have eq: "updateAfterDispatch sc r g rt = (sc', r')"
    by (simp add: updateOccupancyGridRenderable_eq)
  from updateAfterDispatch_grid(1) [of sc r g rt] eq
  have "occupancyGrid r' = g" by simp
  then show ?thesis using eq by simp
qed

lemma reject_eval:
  "updateOccupancyGridRenderable no_png scene0 renderable0 grid_4x4_15 7
     = Inr (scene0\<lparr>errors := [(''/map'', ''INVALID_OCCUPANCY_GRID'',
                ''OccupancyGrid data length (15) is not equal to width 4 * height 4'')]\<rparr>,
            renderable0\<lparr>occupancyGrid := grid_4x4_15, receiveTime := 7\<rparr>)"
  by code_simp

lemma resize_eval:
  "updateOccupancyGridRenderable no_png scene0 renderable0 grid_2x1 7
     = Inr (scene0\<lparr>disposed := [0], next_id := 2\<rparr>,
            renderable0\<lparr>occupancyGrid := grid_2x1, receiveTime := 7,
               texture := \<lparr>tex_id = 1, image_width = 2, image_height = 1,
                            image_data = [255, 255, 255, 128, 0, 0, 0, 128], needsUpdate = True\<rparr>,
               material_map := 1, scale := (2, 1, 1)\<rparr>)"
  by code_simp

text \<open>
  Claim C1, as the specification states it, asks the diagnostic of a rejected grid to
  name the expected length.  For a grid of width 4 and height 4 with 15 cells the
  diagnostic names 15, 4 and 4, and not 16.
\<close>

theorem diagnostic_names_expected_length_counterexample:
  "updateOccupancyGridRenderable no_png scene0 renderable0 grid_4x4_15 7
     = Inr (scene0\<lparr>errors := [(''/map'', ''INVALID_OCCUPANCY_GRID'',
                ''OccupancyGrid data length (15) is not equal to width 4 * height 4'')]\<rparr>,
            renderable0\<lparr>occupancyGrid := grid_4x4_15, receiveTime := 7\<rparr>)
   \<and> \<not> names_number ''OccupancyGrid data length (15) is not equal to width 4 * height 4'' (4 * 4)"
  by code_simp

text \<open>
  Claim C1, amended.  An update that returns accepts the grid if and only if the length
  of its buffer (after the format dispatch) is width times height.  An accepted grid
  adds no diagnostic, marks the texture for upload and sets the scale.  A rejected grid
  adds one diagnostic under the topic of the channel, whose message names the length of
  the buffer, the width and the height; the texture, the material and the scale stay as
  they were and nothing is disposed.
\<close>

theorem dimension_check:
  assumes "updateOccupancyGridRenderable png sc r g rt = Inr (sc', r')"
  shows "topic r' = topic r \<and>
         (let g' = occupancyGrid r' in
          if length (data g') = width (info g') * height (info g')
          then errors sc' = errors sc \<and> needsUpdate (texture r')
               \<and> scale r' = (resolution (info g') * real (width (info g')),
                              resolution (info g') * real (height (info g')), 1)
          else errors sc' = errors sc @ [(topic r, ''INVALID_OCCUPANCY_GRID'',
                   ''OccupancyGrid data length ('' @ string_of_nat (length (data g'))
                     @ '') is not equal to width '' @ string_of_nat (width (info g'))
                     @ '' * height '' @ string_of_nat (height (info g')))]
               \<and> texture r' = texture r \<and> material_map r' = material_map r
               \<and> disposed sc' = disposed sc \<and> scale r' = scale r)"
proof -
  define g' where "g' = occupancyGrid r'"
  from update_Inr_cases [OF assms]
  have u: "updateAfterDispatch sc r g' rt = (sc', r')"
    by (simp add: g'_def)
  have t: "topic r' = topic r"
    using updateAfterDispatch_grid(2) [of sc r g' rt] u by simp
  show ?thesis
  proof (cases "length (data g') = width (info g') * height (info g')")
    case False
    from updateAfterDispatch_reject [OF False, of sc r rt] u
    show ?thesis using False t
      by (auto simp add: g'_def [symmetric] Let_def INVALID_OCCUPANCY_GRID_def invalid_message_def)
  next
    case True
    show ?thesis
    proof (cases "width (info g') \<noteq> image_width (texture r) \<or> height (info g') \<noteq> image_height (texture r)")
      case resize: True
      from updateAfterDispatch_resize [OF True resize, of sc rt] u
      show ?thesis using True t
        by (auto simp add: g'_def [symmetric] Let_def updateTexture_fields)
    next
      case False
      then have same: "width (info g') = image_width (texture r)" "height (info g') = image_height (texture r)"
        by simp_all
      from updateAfterDispatch_same [OF True same, of sc rt] u
      show ?thesis using True t
        by (auto simp add: g'_def [symmetric] Let_def updateTexture_fields)
    qed
  qed
qed

theorem dimension_check_witness:
  "updateOccupancyGridRenderable no_png scene0 renderable0 grid_4x4_15 7
     = Inr (scene0\<lparr>errors := [(''/map'', ''INVALID_OCCUPANCY_GRID'',
                ''OccupancyGrid data length (15) is not equal to width 4 * height 4'')]\<rparr>,
            renderable0\<lparr>occupancyGrid := grid_4x4_15, receiveTime := 7\<rparr>)
   \<and> errors (scene0\<lparr>errors := [(''/map'', ''INVALID_OCCUPANCY_GRID'',
                ''OccupancyGrid data length (15) is not equal to width 4 * height 4'')]\<rparr>)
       = errors scene0 @ [(''/map'', ''INVALID_OCCUPANCY_GRID'',
                ''OccupancyGrid data length (15) is not equal to width 4 * height 4'')]
   \<and> texture (renderable0\<lparr>occupancyGrid := grid_4x4_15, receiveTime := 7\<rparr>) = texture renderable0"
  using dimension_check [OF reject_eval] reject_eval
  by (simp add: scene0_def)

subsection \<open>The backing buffer\<close>

text \<open>
  Claim C8.  After an accepted update of a renderable whose texture has four bytes for
  each cell of its image, the buffer has exactly width times height times 4 bytes and
  the image has the size of the grid.  When the width or the height differs from the
  one of the texture, the old texture is disposed and the renderable and its material
  get a new texture; otherwise the texture stays the same object and nothing is
  disposed.
\<close>

theorem texture_buffer_length:
  assumes "tex_wf (texture r)"
    and "updateOccupancyGridRenderable png sc r g rt = Inr (sc', r')"
    and "length (data (occupancyGrid r')) = width (info g) * height (info g)"
  shows "length (image_data (texture r')) = width (info g) * height (info g) * 4
         \<and> image_width (texture r') = width (info g)
         \<and> image_height (texture r') = height (info g)
         \<and> (if width (info g) \<noteq> image_width (texture r) \<or> height (info g) \<noteq> image_height (texture r)
            then disposed sc' = disposed sc @ [tex_id (texture r)]
                 \<and> tex_id (texture r') = next_id sc \<and> next_id sc' = Suc (next_id sc)
                 \<and> material_map r' = tex_id (texture r')
            else disposed sc' = disposed sc
                 \<and> tex_id (texture r') = tex_id (texture r) \<and> next_id sc' = next_id sc
                 \<and> material_map r' = material_map r)"
proof -
  from update_Inr_cases [OF assms(2)]
  have i: "info (occupancyGrid r') = info g"
    and u: "updateAfterDispatch sc r (occupancyGrid r') rt = (sc', r')"
    by simp_all
  from assms(3) i have len: "length (data (occupancyGrid r')) =
      width (info (occupancyGrid r')) * height (info (occupancyGrid r'))"
    by simp
  show ?thesis
    using updateAfterDispatch_accept [OF len assms(1) u] unfolding i .
qed

theorem texture_buffer_length_witness:
  "tex_wf (texture renderable0)
   \<and> updateOccupancyGridRenderable no_png scene0 renderable0 grid_2x1 7
     = Inr (scene0\<lparr>disposed := [0], next_id := 2\<rparr>,
            renderable0\<lparr>occupancyGrid := grid_2x1, receiveTime := 7,
               texture := \<lparr>tex_id = 1, image_width = 2, image_height = 1,
                            image_data = [255, 255, 255, 128, 0, 0, 0, 128], needsUpdate = True\<rparr>,
               material_map := 1, scale := (2, 1, 1)\<rparr>)
   \<and> length [255, 255, 255, 128, 0, 0, 0, 128 :: byte]
       = width (info grid_2x1) * height (info grid_2x1) * 4
   \<and> disposed (scene0\<lparr>disposed := [0], next_id := 2\<rparr>)
       = disposed scene0 @ [tex_id (texture renderable0)]"
proof -
  have wf: "tex_wf (texture renderable0)"
    by (simp add: tex_wf_def renderable0_def texture0_def)
  have acc: "length (data (occupancyGrid (renderable0\<lparr>occupancyGrid := grid_2x1, receiveTime := 7,
               texture := \<lparr>tex_id = 1, image_width = 2, image_height = 1,
                            image_data = [255, 255, 255, 128, 0, 0, 0, 128], needsUpdate = True\<rparr>,
               material_map := 1, scale := (2, 1, 1)\<rparr>))) = width (info grid_2x1) * height (info grid_2x1)"
    by (simp add: grid_2x1_def)
  from texture_buffer_length [OF wf resize_eval acc] wf resize_eval show ?thesis
    by (simp add: grid_2x1_def renderable0_def texture0_def scene0_def)
qed

text \<open>
  The hypothesis on the texture holds for every renderable the handler keeps: the
  texture of a new renderable comes from \<open>createTexture\<close>, and an update keeps the
  property.
\<close>

lemma updateAfterDispatch_tex_wf:
  assumes "tex_wf (texture r)"
  shows "tex_wf (texture (snd (updateAfterDispatch sc r g rt)))"
proof (cases "length (data g) = width (info g) * height (info g)")
  case True
  obtain sc' r' where res: "updateAfterDispatch sc r g rt = (sc', r')"
    by (cases "updateAfterDispatch sc r g rt")
  from updateAfterDispatch_accept [OF True assms res] show ?thesis
    by (simp add: res tex_wf_def)
next
  case False
  then show ?thesis
    using assms by (simp add: updateAfterDispatch_reject)
qed

lemma updateOccupancyGridRenderable_tex_wf:
  assumes "tex_wf (texture r)" and "updateOccupancyGridRenderable png sc r g rt = Inr (sc', r')"
  shows "tex_wf (texture r')"
proof -
  from update_Inr_cases [OF assms(2)]
  have "updateAfterDispatch sc r (occupancyGrid r') rt = (sc', r')" by simp
  with updateAfterDispatch_tex_wf [OF assms(1), of sc "occupancyGrid r'" rt]
  show ?thesis by simp
qed

lemma handleOccupancyGrid_tex_wf:
  assumes inv: "\<forall>r\<in>ran rs. tex_wf (texture r)"
    and res: "handleOccupancyGrid png (sc, rs) tp m rt = Inr (sc', rs')"
  shows "\<forall>r\<in>ran rs'. tex_wf (texture r)"
proof -
  define g where "g = normalizeOccupancyGrid m"
  obtain sc1 r1 where start:
    "(case rs tp of
        Some r \<Rightarrow> (sc, r)
      | None \<Rightarrow>
          let (tex, sc) = createTexture sc g
          in (sc, \<lparr>topic = tp, occupancyGrid = g, rpose = origin (info g),
                   receiveTime = rt, texture = tex, material_map = tex_id tex,
                   scale = (1, 1, 1)\<rparr>)) = (sc1, r1)"
    by (cases "(case rs tp of
        Some r \<Rightarrow> (sc, r)
      | None \<Rightarrow>
          let (tex, sc) = createTexture sc g
          in (sc, \<lparr>topic = tp, occupancyGrid = g, rpose = origin (info g),
                   receiveTime = rt, texture = tex, material_map = tex_id tex,
                   scale = (1, 1, 1)\<rparr>))")
  have wf1: "tex_wf (texture r1)"
  proof (cases "rs tp")
    case None
    with start have "texture r1 = fst (createTexture sc g)"
      by (auto simp add: Let_def split: prod.splits)
    then show ?thesis by (simp add: createTexture_tex_wf)
  next
    case (Some r)
    with start have "r1 = r" by simp
    moreover have "r \<in> ran rs" using Some by (auto simp add: ran_def)
    ultimately show ?thesis using inv by simp
  qed
  from res start obtain r' where
    u: "updateOccupancyGridRenderable png sc1 r1 g rt = Inr (sc', r')" and rs': "rs' = rs(tp \<mapsto> r')"
    by (auto simp add: handleOccupancyGrid_def Let_def g_def [symmetric] split: sum.splits prod.splits)
  have "tex_wf (texture r')"
    using updateOccupancyGridRenderable_tex_wf [OF wf1 u] .
  moreover have "ran rs' \<subseteq> insert r' (ran rs)"
    unfolding rs' by (auto simp add: ran_def)
  ultimately show ?thesis using inv by auto
qed

subsection \<open>The empty grid\<close>

text \<open>
  Claim C9.  A message whose data is missing or empty and whose width and height are
  each missing or zero normalizes to a grid with no cells, width 0 and height 0; the
  handler accepts it: it returns, adds no diagnostic, stores the grid and marks a
  texture of size 0 by 0 for upload.
\<close>

theorem empty_grid_accepted:
  assumes "absent_or_empty (p_data m)"
    and "absent_or_zero (Option.bind (p_info m) p_width)"
    and "absent_or_zero (Option.bind (p_info m) p_height)"
  shows "data (normalizeOccupancyGrid m) = []
         \<and> width (info (normalizeOccupancyGrid m)) = 0
         \<and> height (info (normalizeOccupancyGrid m)) = 0
         \<and> (\<exists>sc' rs' r'. handleOccupancyGrid png (sc, rs) tp m rt = Inr (sc', rs')
               \<and> errors sc' = errors sc
               \<and> rs' tp = Some r'
               \<and> occupancyGrid r' = normalizeOccupancyGrid m
               \<and> needsUpdate (texture r')
               \<and> image_width (texture r') = 0 \<and> image_height (texture r') = 0)"
proof -
  define g where "g = normalizeOccupancyGrid m"
  have d: "data g = []" and w: "width (info g) = 0" and h: "height (info g) = 0"
    using assms
    by (auto simp add: g_def normalizeOccupancyGrid_def normalizeInt8Array_def absent_or_empty_def
        absent_or_zero_def Let_def split: option.splits)
  have len: "length (data g) = width (info g) * height (info g)"
    by (simp add: d w)
  have nopng: "take 4 (data g) \<noteq> png_magic"
    by (simp add: d png_magic_def)
  have upd: "updateOccupancyGridRenderable png sc1 r1 g rt = Inr (updateAfterDispatch sc1 r1 g rt)"
    for sc1 r1
    using nopng by (simp add: updateOccupancyGridRenderable_eq)
  have acc: "errors (fst (updateAfterDispatch sc1 r1 g rt)) = errors sc1
             \<and> occupancyGrid (snd (updateAfterDispatch sc1 r1 g rt)) = g
             \<and> needsUpdate (texture (snd (updateAfterDispatch sc1 r1 g rt)))
             \<and> image_width (texture (snd (updateAfterDispatch sc1 r1 g rt))) = 0
             \<and> image_height (texture (snd (updateAfterDispatch sc1 r1 g rt))) = 0"
    for sc1 r1
    using len w h
    by (auto simp add: updateAfterDispatch_def Let_def createTexture_def updateTexture_def
        split: prod.splits)
  obtain sc1 r1 where start:
    "(case rs tp of
        Some r \<Rightarrow> (sc, r)
      | None \<Rightarrow>
          let (tex, sc) = createTexture sc g
          in (sc, \<lparr>topic = tp, occupancyGrid = g, rpose = origin (info g),
                   receiveTime = rt, texture = tex, material_map = tex_id tex,
                   scale = (1, 1, 1)\<rparr>)) = (sc1, r1)"
    by (cases "(case rs tp of
        Some r \<Rightarrow> (sc, r)
      | None \<Rightarrow>
          let (tex, sc) = createTexture sc g
          in (sc, \<lparr>topic = tp, occupancyGrid = g, rpose = origin (info g),
                   receiveTime = rt, texture = tex, material_map = tex_id tex,
                   scale = (1, 1, 1)\<rparr>))")
  have e1: "errors sc1 = errors sc"
    using start by (auto simp add: createTexture_def Let_def split: option.splits)
  obtain sc' r' where u: "updateAfterDispatch sc1 r1 g rt = (sc', r')"
    by (cases "updateAfterDispatch sc1 r1 g rt")
  have res: "handleOccupancyGrid png (sc, rs) tp m rt = Inr (sc', rs(tp \<mapsto> r'))"
    using start u upd [of sc1 r1]
    by (simp add: handleOccupancyGrid_def Let_def g_def [symmetric])
  from acc [of sc1 r1] u e1 have
    "errors sc' = errors sc" "occupancyGrid r' = g" "needsUpdate (texture r')"
    "image_width (texture r') = 0" "image_height (texture r') = 0"
    by simp_all
  with res d w h show ?thesis
    by (simp add: g_def [symmetric])
qed

theorem empty_grid_accepted_witness:
  "absent_or_empty (p_data empty_message)
   \<and> absent_or_zero (Option.bind (p_info empty_message) p_width)
   \<and> absent_or_zero (Option.bind (p_info empty_message) p_height)
   \<and> data (normalizeOccupancyGrid empty_message) = []
   \<and> map_sum id (errors \<circ> fst) (handleOccupancyGrid no_png (scene0, stale_renderables) ''/map'' empty_message 7)
       = Inr []"
proof -
  have a: "absent_or_empty (p_data empty_message)"
    and b: "absent_or_zero (Option.bind (p_info empty_message) p_width)"
    and c: "absent_or_zero (Option.bind (p_info empty_message) p_height)"
    by (simp_all add: empty_message_def absent_or_empty_def absent_or_zero_def)
  from empty_grid_accepted [OF a b c, of no_png scene0 stale_renderables "''/map''" 7]
  show ?thesis using a b c
    by (auto simp add: scene0_def)
qed

section \<open>Properties of the costmap adapter\<close>

lemma js_index_quarter:
  "js_index xs (of_nat k / 4) = (if k mod 4 = 0 \<and> k div 4 < length xs then Some (xs ! (k div 4)) else None)"
proof (cases "k mod 4 = 0")
  case True
  define j where "j = k div 4"
  have k: "k = 4 * j" using True unfolding j_def by presburger
  have "(of_nat k :: rat) / 4 = of_nat j" by (simp add: k)
  then show ?thesis using True by (simp add: js_index_def j_def [symmetric])
next
  case False
  have "of_int \<lfloor>(of_nat k :: rat) / 4\<rfloor> \<noteq> (of_nat k :: rat) / 4"
  proof
    assume "of_int \<lfloor>(of_nat k :: rat) / 4\<rfloor> = (of_nat k :: rat) / 4"
    then have "(of_nat k :: rat) = of_int (4 * \<lfloor>(of_nat k :: rat) / 4\<rfloor>)" by simp
    then have "int k = 4 * \<lfloor>(of_nat k :: rat) / 4\<rfloor>"
      by (metis of_int_eq_iff of_int_of_nat_eq)
    then have "int k mod 4 = 0" by simp
    then show False using False by presburger
  qed
  then show ?thesis using False by (simp add: js_index_def)
qed

lemma unpack_cell_eq:
  "unpack_cell packed k =
     (if k mod 4 = 0 \<and> k div 4 < length packed then drop_bit 6 (packed ! (k div 4)) AND 3 else 0)"
  by (simp add: unpack_cell_def js_index_quarter Let_def)

lemma length_unpack_loop: "length (unpack_loop packed w h out) = length out"
proof -
  have inner: "length (fold (\<lambda>x out. out[w * y + x := unpack_cell packed (w * y + x)]) xs out)
                 = length out" for y xs out
    by (induction xs arbitrary: out) simp_all
  have "length (fold (\<lambda>y out. fold (\<lambda>x out. out[w * y + x := unpack_cell packed (w * y + x)])
                                   [0..<h] out) ys out) = length out" for ys
    by (induction ys arbitrary: out) (simp_all add: inner)
  then show ?thesis by (simp add: unpack_loop_def)
qed

text \<open>
  Whatever the packed bytes are, the adapter carries the width, the height and the
  resolution over, takes the origin from the two offsets with z = 0, and returns as
  many cells as there are packed bytes.
\<close>

lemma MirToRos_info:
  assumes "MirToRos m = Inr g"
  shows "p_info g = Some \<lparr>p_resolution = c_resolution m, p_width = c_width m,
                          p_height = c_height m,
                          p_origin = Some \<lparr>p_position = Some \<lparr>p_x = c_offset_x m, p_y = c_offset_y m, p_z = Some 0\<rparr>,
                                           p_orientation = Some \<lparr>p_qx = Some 0, p_qy = Some 0, p_qz = Some 0, p_qw = Some 1\<rparr>\<rparr>\<rparr>"
    and "map_option length (p_data g) = Some (case c_data m of None \<Rightarrow> 0 | Some d \<Rightarrow> length d)"
  using assms
  by (auto simp add: MirToRos_def Let_def length_unpack_loop split: option.splits if_splits)

text \<open>
  Claim C3 at a costmap of width 2 and height 2 whose one packed byte is
  \<open>0b11100100\<close>.  The specification gives the cells 3, 2, 1, 0.  The adapter returns
  one cell, 3: the output array has the length of the packed input, and the index
  \<open>k / 4\<close> is a fraction for every \<open>k\<close> that is not a multiple of 4, where the read
  gives \<open>undefined\<close> and the cell is 0.  With three more packed bytes the four cells
  are 3, 0, 0, 0.
\<close>

theorem costmap_cells_lost:
  "map_sum id p_data (MirToRos costmap_2x2) = Inr (Some [3])
   \<and> map_sum id p_data (MirToRos costmap_2x2_padded) = Inr (Some [3, 0, 0, 0])
   \<and> map (expected_cell [0b11100100]) [0, 1, 2, 3] = [3, 2, 1, 0]"
  by code_simp

section \<open>Properties of the pose arrays\<close>

subsection \<open>Index-wise updates of a list\<close>

lemma fold_update_range:
  "b \<le> length xs \<Longrightarrow>
   fold (\<lambda>i xs. xs[i := f i (xs ! i)]) [a..<b] xs
     = take a xs @ map (\<lambda>i. f i (xs ! i)) [a..<b] @ drop (max a b) xs"
proof (induction b)
  case 0
  then show ?case by simp
next
  case (Suc b)
  show ?case
  proof (cases "a \<le> b")
    case False
    then have "Suc b \<le> a" by simp
    then show ?thesis by (cases "a = Suc b") (simp_all add: max_def)
  next
    case True
    define P where "P = take a xs @ map (\<lambda>i. f i (xs ! i)) [a..<b]"
    have len: "length P = b"
      using Suc.prems True by (simp add: P_def)
    have ih: "fold (\<lambda>i xs. xs[i := f i (xs ! i)]) [a..<b] xs = P @ drop b xs"
      using Suc True by (simp add: max_def P_def)
    have nth_b: "(P @ drop b xs) ! b = xs ! b"
      using len Suc.prems by (simp add: nth_append)
    have upd: "(P @ drop b xs)[b := v] = P @ v # drop (Suc b) xs" for v
    proof -
      have "(P @ drop b xs)[b := v] = P @ (drop b xs)[0 := v]"
        using len by (simp add: list_update_append)
      moreover have "drop b xs = xs ! b # drop (Suc b) xs"
        using Suc.prems by (simp add: Cons_nth_drop_Suc)
      ultimately show ?thesis by simp
    qed
    have "fold (\<lambda>i xs. xs[i := f i (xs ! i)]) [a..<Suc b] xs
            = (P @ drop b xs)[b := f b ((P @ drop b xs) ! b)]"
      using True ih by simp
    also have "\<dots> = P @ f b (xs ! b) # drop (Suc b) xs"
      by (simp only: nth_b upd)
    finally show ?thesis
      using True by (simp add: max_def P_def)
  qed
qed

lemma map_nth_range:
  "b \<le> length xs \<Longrightarrow> map (\<lambda>i. f (xs ! i)) [a..<b] = map f (take (b - a) (drop a xs))"
  by (rule nth_equalityI) (auto simp add: add.commute)

lemma fold_update_prefix:
  assumes "k \<le> length xs"
  shows "fold (\<lambda>i xs. xs[i := f (xs ! i)]) [0..<k] xs = map f (take k xs) @ drop k xs"
  using fold_update_range [OF assms, of "\<lambda>i. f" 0] map_nth_range [OF assms, of f 0]
  by simp

lemma fold_update_suffix:
  "fold (\<lambda>i xs. xs[i := f (xs ! i)]) [n..<length xs] xs = take n xs @ map f (drop n xs)"
proof (cases "n \<le> length xs")
  case True
  then show ?thesis
    using fold_update_range [of "length xs" xs "\<lambda>i. f" n] map_nth_range [of "length xs" xs f n]
    by (simp add: max_def)
next
  case False
  then show ?thesis by simp
qed

lemma fold_update_suffix':
  "length xs = l \<Longrightarrow>
   fold (\<lambda>i xs. xs[i := f (xs ! i)]) [n..<l] xs = take n xs @ map f (drop n xs)"
  using fold_update_suffix [of f n xs] by simp

lemma fold_frame:
  assumes "\<And>i r. sel (f i r) = sel r"
  shows "sel (fold f is r) = sel r"
  by (induction "is" arbitrary: r) (simp_all add: assms)

lemmas fold_frames =
  fold_frame [where sel = axes] fold_frame [where sel = arrows]
  fold_frame [where sel = pa_disposed] fold_frame [where sel = lineStrip]
  fold_frame [where sel = pa_settings] fold_frame [where sel = trolley_arrows]

lemma length_filter_map_bool:
  "length (filter P xs) = length (filter (\<lambda>b. b) (map P xs))"
  by (induction xs) simp_all

lemma count_visible:
  "length (filter (\<lambda>b. b) (replicate (min m n) True @ replicate (m - n) False @ replicate (n - m) True)) = n"
  by (simp add: min_def)

lemma nth_visible:
  assumes "i < max m n"
  shows "(replicate (min m n) True @ replicate (m - n) False @ replicate (n - m) True) ! i \<longleftrightarrow> i < n"
  using assms by (auto simp add: nth_append min_def max_def)

subsection \<open>The pool of axes\<close>

lemma fold_axes_update:
  "fold (\<lambda>i r. r\<lparr>axes := (axes r)[i := g (axes r ! i)]\<rparr>) is r
     = r\<lparr>axes := fold (\<lambda>i xs. xs[i := g (xs ! i)]) is (axes r)\<rparr>"
  by (induction "is" arbitrary: r) simp_all

lemma fold_axes_update_ix:
  "fold (\<lambda>i r. r\<lparr>axes := (axes r)[i := g i (axes r ! i)]\<rparr>) is r
     = r\<lparr>axes := fold (\<lambda>i xs. xs[i := g i (xs ! i)]) is (axes r)\<rparr>"
  by (induction "is" arbitrary: r) simp_all

lemma fold_axes_create:
  "fold (\<lambda>i r. r\<lparr>axes := axes r @ [new_axis s (pa_next_id r)],
                  children := children r @ [pa_next_id r],
                  pa_next_id := Suc (pa_next_id r)\<rparr>) is r
     = r\<lparr>axes := axes r @ map (new_axis s) [pa_next_id r..<pa_next_id r + length is],
         children := children r @ [pa_next_id r..<pa_next_id r + length is],
         pa_next_id := pa_next_id r + length is\<rparr>"
proof (induction "is" arbitrary: r)
  case Nil
  then show ?case by simp
next
  case (Cons i "is")
  have "pa_next_id r < pa_next_id r + length (i # is)" by simp
  from upt_conv_Cons [OF this]
  have "[pa_next_id r..<pa_next_id r + length (i # is)]
          = pa_next_id r # [Suc (pa_next_id r)..<Suc (pa_next_id r) + length is]"
    by simp
  then show ?case using Cons by simp
qed

lemma axes_show_loop:
  assumes "k \<le> length (axes r)"
  shows "fold (\<lambda>i r. r\<lparr>axes := (axes r)[i := (axes r ! i)\<lparr>axis_visible := True,
                                                  axis_scale := (s, s, s)\<rparr>]\<rparr>) [0..<k] r
           = r\<lparr>axes := map (show_axis s) (take k (axes r)) @ drop k (axes r)\<rparr>"
proof -
  have "fold (\<lambda>i r. r\<lparr>axes := (axes r)[i := (axes r ! i)\<lparr>axis_visible := True,
                                                  axis_scale := (s, s, s)\<rparr>]\<rparr>) [0..<k] r
          = fold (\<lambda>i r. r\<lparr>axes := (axes r)[i := show_axis s (axes r ! i)]\<rparr>) [0..<k] r"
    by (simp add: show_axis_def)
  also have "\<dots> = r\<lparr>axes := fold (\<lambda>i xs. xs[i := show_axis s (xs ! i)]) [0..<k] (axes r)\<rparr>"
    by (rule fold_axes_update)
  finally show ?thesis
    using assms by (simp add: fold_update_prefix)
qed

lemma axes_hide_loop:
  assumes "length (axes r) = l"
  shows "fold (\<lambda>i r. r\<lparr>axes := (axes r)[i := (axes r ! i)\<lparr>axis_visible := False\<rparr>]\<rparr>) [n..<l] r
           = r\<lparr>axes := take n (axes r) @ map hide_axis (drop n (axes r))\<rparr>"
proof -
  have "fold (\<lambda>i r. r\<lparr>axes := (axes r)[i := (axes r ! i)\<lparr>axis_visible := False\<rparr>]\<rparr>) [n..<l] r
          = fold (\<lambda>i r. r\<lparr>axes := (axes r)[i := hide_axis (axes r ! i)]\<rparr>) [n..<l] r"
    by (simp add: hide_axis_def)
  also have "\<dots> = r\<lparr>axes := fold (\<lambda>i xs. xs[i := hide_axis (xs ! i)]) [n..<l] (axes r)\<rparr>"
    by (rule fold_axes_update)
  finally show ?thesis
    using assms by (simp add: fold_update_suffix')
qed

lemma axes_create_loop:
  "fold (\<lambda>i r.
           r\<lparr>axes := axes r @ [\<lparr>axis_id = pa_next_id r, axis_visible = True,
                                   axis_scale = (s, s, s), axis_pose = makePose\<rparr>],
             children := children r @ [axis_id \<lparr>axis_id = pa_next_id r, axis_visible = True,
                                   axis_scale = (s, s, s), axis_pose = makePose\<rparr>],
             pa_next_id := Suc (pa_next_id r)\<rparr>) is r
     = r\<lparr>axes := axes r @ map (new_axis s) [pa_next_id r..<pa_next_id r + length is],
         children := children r @ [pa_next_id r..<pa_next_id r + length is],
         pa_next_id := pa_next_id r + length is\<rparr>"
  using fold_axes_create [of s "is" r] by (simp add: new_axis_def Let_def)

lemma createAxesToMatchPoses_eq:
  "createAxesToMatchPoses lib r poses =
     (let s = axisScale (pa_settings r) * (1 / AXIS_LENGTH lib);
          n = length poses; m = length (axes r)
      in r\<lparr>axes := map (show_axis s) (take n (axes r))
                     @ map hide_axis (drop n (axes r))
                     @ map (new_axis s) [pa_next_id r..<pa_next_id r + (n - m)],
           children := children r @ [pa_next_id r..<pa_next_id r + (n - m)],
           pa_next_id := pa_next_id r + (n - m)\<rparr>)"
proof -
  define s where "s = axisScale (pa_settings r) * (1 / AXIS_LENGTH lib)"
  define n where "n = length poses"
  define m where "m = length (axes r)"
  define r1 where "r1 = r\<lparr>axes := map (show_axis s) (take (min m n) (axes r)) @ drop (min m n) (axes r)\<rparr>"
  define r2 where "r2 = r1\<lparr>axes := axes r1 @ map (new_axis s) [pa_next_id r1..<pa_next_id r1 + (n - m)],
         children := children r1 @ [pa_next_id r1..<pa_next_id r1 + (n - m)],
         pa_next_id := pa_next_id r1 + (n - m)\<rparr>"
  define r3 where "r3 = r2\<lparr>axes := take n (axes r2) @ map hide_axis (drop n (axes r2))\<rparr>"
  have l1: "length (axes r1) = m" by (simp add: r1_def m_def)
  have s1: "fold (\<lambda>i r. r\<lparr>axes := (axes r)[i := (axes r ! i)\<lparr>axis_visible := True,
                                                  axis_scale := (s, s, s)\<rparr>]\<rparr>) [0..<min m n] r = r1"
    unfolding r1_def by (rule axes_show_loop) (simp add: m_def)
  have s2: "fold (\<lambda>i r.
           r\<lparr>axes := axes r @ [\<lparr>axis_id = pa_next_id r, axis_visible = True,
                                   axis_scale = (s, s, s), axis_pose = makePose\<rparr>],
             children := children r @ [axis_id \<lparr>axis_id = pa_next_id r, axis_visible = True,
                                   axis_scale = (s, s, s), axis_pose = makePose\<rparr>],
             pa_next_id := Suc (pa_next_id r)\<rparr>) [length (axes r1)..<n] r1 = r2"
    unfolding r2_def l1 by (simp only: axes_create_loop length_upt)
  have s3: "fold (\<lambda>i r. r\<lparr>axes := (axes r)[i := (axes r ! i)\<lparr>axis_visible := False\<rparr>]\<rparr>)
              [n..<length (axes r2)] r2 = r3"
    unfolding r3_def by (rule axes_hide_loop) simp
  have "createAxesToMatchPoses lib r poses = r3"
    unfolding createAxesToMatchPoses_def
    by (simp only: Let_def s_def [symmetric] n_def [symmetric] m_def [symmetric] s1 s2 s3)
  also have "r3 = r\<lparr>axes := map (show_axis s) (take n (axes r))
                     @ map hide_axis (drop n (axes r))
                     @ map (new_axis s) [pa_next_id r..<pa_next_id r + (n - m)],
           children := children r @ [pa_next_id r..<pa_next_id r + (n - m)],
           pa_next_id := pa_next_id r + (n - m)\<rparr>"
  proof (cases "n \<le> m")
    case True
    then show ?thesis
      by (simp add: r3_def r2_def r1_def min_def m_def)
  next
    case False
    then show ?thesis
      by (simp add: r3_def r2_def r1_def min_def m_def)
  qed
  finally show ?thesis
    by (simp only: Let_def s_def n_def m_def)
qed

lemma setObjectPose_axes_eq:
  assumes "length poses \<le> length (axes r)"
  shows "setObjectPose_axes poses r =
           r\<lparr>axes := map (\<lambda>i. (axes r ! i)\<lparr>axis_pose := poses ! i\<rparr>) [0..<length poses]
                       @ drop (length poses) (axes r)\<rparr>"
  unfolding setObjectPose_axes_def
  using fold_axes_update_ix [of "\<lambda>i a. a\<lparr>axis_pose := poses ! i\<rparr>" "[0..<length poses]" r]
    fold_update_range [OF assms, of "\<lambda>i a. a\<lparr>axis_pose := poses ! i\<rparr>" 0]
  by simp

lemma length_synced_axes: "length (synced_axes s nid poses xs) = max (length xs) (length poses)"
  by (simp add: synced_axes_def)

lemma axes_sync_place:
  "axes (setObjectPose_axes poses (createAxesToMatchPoses lib r poses)) =
     (let xs = synced_axes (axisScale (pa_settings r) * (1 / AXIS_LENGTH lib)) (pa_next_id r) poses (axes r)
      in map (\<lambda>i. (xs ! i)\<lparr>axis_pose := poses ! i\<rparr>) [0..<length poses] @ drop (length poses) xs)"
proof -
  have len: "length poses \<le> length (axes (createAxesToMatchPoses lib r poses))"
    by (simp add: createAxesToMatchPoses_eq Let_def)
  show ?thesis
    by (simp add: setObjectPose_axes_eq [OF len]) (simp add: createAxesToMatchPoses_eq Let_def synced_axes_def)
qed

lemma axes_sync_place':
  "axes (setObjectPose_axes poses (createAxesToMatchPoses lib r poses)) =
     place_axes poses
       (synced_axes (axisScale (pa_settings r) * (1 / AXIS_LENGTH lib)) (pa_next_id r) poses (axes r))"
  by (simp add: axes_sync_place place_axes_def Let_def)

lemma map_place_axes:
  assumes "length poses \<le> length xs" and "\<And>a p. sel (a\<lparr>axis_pose := p\<rparr>) = sel a"
  shows "map sel (place_axes poses xs) = map sel xs"
proof -
  have "map sel (place_axes poses xs)
          = map (\<lambda>i. sel (xs ! i)) [0..<length poses] @ map sel (drop (length poses) xs)"
    by (simp add: place_axes_def assms(2) comp_def)
  also have "\<dots> = map sel (take (length poses) xs) @ map sel (drop (length poses) xs)"
    using map_nth_range [OF assms(1), of sel 0] by simp
  finally show ?thesis by (simp flip: map_append)
qed

lemma ids_synced_axes:
  "map axis_id (synced_axes s nid poses xs)
     = map axis_id xs @ [nid..<nid + (length poses - length xs)]"
proof -
  have "map axis_id (synced_axes s nid poses xs)
          = map axis_id (take (length poses) xs) @ map axis_id (drop (length poses) xs)
              @ [nid..<nid + (length poses - length xs)]"
    by (simp add: synced_axes_def comp_def show_axis_def hide_axis_def new_axis_def)
  then show ?thesis by (simp flip: map_append)
qed

lemma visible_synced_axes:
  "map axis_visible (synced_axes s nid poses xs)
     = replicate (min (length xs) (length poses)) True
         @ replicate (length xs - length poses) False
         @ replicate (length poses - length xs) True"
  by (simp add: synced_axes_def comp_def show_axis_def hide_axis_def new_axis_def map_replicate_const min.commute)

lemma placed_axes_facts:
  fixes A :: "axis list" and poses :: "pose list" and s :: real and nid :: nat
  defines "ys \<equiv> place_axes poses (synced_axes s nid poses A)"
  shows "length (filter axis_visible ys) = length poses"
    and "length ys = max (length A) (length poses)"
    and "take (length A) (map axis_id ys) = map axis_id A"
    and "\<forall>i<length ys. axis_visible (ys ! i) \<longleftrightarrow> i < length poses"
    and "\<forall>i<length poses. axis_pose (ys ! i) = poses ! i"
proof -
  let ?xs = "synced_axes s nid poses A"
  have le: "length poses \<le> length ?xs" by (simp add: length_synced_axes)
  have vis: "map axis_visible ys = replicate (min (length A) (length poses)) True
         @ replicate (length A - length poses) False
         @ replicate (length poses - length A) True"
    unfolding ys_def by (simp add: map_place_axes [OF le] visible_synced_axes)
  have ids: "map axis_id ys = map axis_id A @ [nid..<nid + (length poses - length A)]"
    unfolding ys_def by (simp add: map_place_axes [OF le] ids_synced_axes)
  show "length (filter axis_visible ys) = length poses"
    by (simp only: length_filter_map_bool [of axis_visible] vis count_visible)
  show len: "length ys = max (length A) (length poses)"
    using arg_cong [OF ids, of length] by simp
  show "take (length A) (map axis_id ys) = map axis_id A"
    by (simp add: ids)
  show "\<forall>i<length ys. axis_visible (ys ! i) \<longleftrightarrow> i < length poses"
  proof (intro allI impI)
    fix i assume i: "i < length ys"
    then have "axis_visible (ys ! i) = map axis_visible ys ! i" by simp
    also have "\<dots> \<longleftrightarrow> i < length poses"
      unfolding vis using i len by (intro nth_visible) simp
    finally show "axis_visible (ys ! i) \<longleftrightarrow> i < length poses" .
  qed
  show "\<forall>i<length poses. axis_pose (ys ! i) = poses ! i"
    by (simp add: ys_def place_axes_def nth_append)
qed

subsection \<open>The pool of arrows\<close>

lemma createArrowMarkerFromIndex_eq:
  "createArrowMarkerFromIndex lib r poses cs ce i
     = gradient_marker lib (pa_settings r) (length poses) cs ce i"
  by (simp add: createArrowMarkerFromIndex_def gradient_marker_def Let_def)

lemma fold_arrows_update:
  "fold (\<lambda>i r. r\<lparr>arrows := (arrows r)[i := g (pa_settings r) i (arrows r ! i)]\<rparr>) is r
     = r\<lparr>arrows := fold (\<lambda>i xs. xs[i := g (pa_settings r) i (xs ! i)]) is (arrows r)\<rparr>"
  by (induction "is" arbitrary: r) simp_all

lemma fold_arrows_update_const:
  "fold (\<lambda>i r. r\<lparr>arrows := (arrows r)[i := g (arrows r ! i)]\<rparr>) is r
     = r\<lparr>arrows := fold (\<lambda>i xs. xs[i := g (xs ! i)]) is (arrows r)\<rparr>"
  by (induction "is" arbitrary: r) simp_all

lemma fold_arrows_update_ix:
  "fold (\<lambda>i r. r\<lparr>arrows := (arrows r)[i := g i (arrows r ! i)]\<rparr>) is r
     = r\<lparr>arrows := fold (\<lambda>i xs. xs[i := g i (xs ! i)]) is (arrows r)\<rparr>"
  by (induction "is" arbitrary: r) simp_all

lemma fold_arrows_create:
  "fold (\<lambda>i r. r\<lparr>arrows := arrows r @ [new_arrow (mk (pa_settings r) i) (pa_next_id r)],
                  children := children r @ [pa_next_id r],
                  pa_next_id := Suc (pa_next_id r)\<rparr>) is r
     = r\<lparr>arrows := arrows r @ map (\<lambda>(i, k). new_arrow (mk (pa_settings r) i) k)
                                  (zip is [pa_next_id r..<pa_next_id r + length is]),
         children := children r @ [pa_next_id r..<pa_next_id r + length is],
         pa_next_id := pa_next_id r + length is\<rparr>"
proof (induction "is" arbitrary: r)
  case Nil
  then show ?case by simp
next
  case (Cons i "is")
  have "pa_next_id r < pa_next_id r + length (i # is)" by simp
  from upt_conv_Cons [OF this]
  have "[pa_next_id r..<pa_next_id r + length (i # is)]
          = pa_next_id r # [Suc (pa_next_id r)..<Suc (pa_next_id r) + length is]"
    by simp
  then show ?case using Cons by simp
qed

lemma arrows_show_loop:
  assumes "k \<le> length (arrows r)"
  shows "fold (\<lambda>i r. r\<lparr>arrows := (arrows r)[i := (arrows r ! i)\<lparr>arrow_visible := True,
               arrow_marker := createArrowMarkerFromIndex lib r poses cs ce i\<rparr>]\<rparr>) [0..<k] r
           = r\<lparr>arrows := map (\<lambda>i. show_arrow (gradient_marker lib (pa_settings r) (length poses) cs ce i)
                                     (arrows r ! i)) [0..<k]
                           @ drop k (arrows r)\<rparr>"
proof -
  have "fold (\<lambda>i r. r\<lparr>arrows := (arrows r)[i := (arrows r ! i)\<lparr>arrow_visible := True,
               arrow_marker := createArrowMarkerFromIndex lib r poses cs ce i\<rparr>]\<rparr>) [0..<k] r
          = fold (\<lambda>i r. r\<lparr>arrows := (arrows r)[i :=
               (\<lambda>s i. show_arrow (gradient_marker lib s (length poses) cs ce i)) (pa_settings r) i
                 (arrows r ! i)]\<rparr>) [0..<k] r"
    by (simp add: show_arrow_def createArrowMarkerFromIndex_eq)
  also have "\<dots> = r\<lparr>arrows := fold (\<lambda>i xs. xs[i :=
               (\<lambda>s i. show_arrow (gradient_marker lib s (length poses) cs ce i)) (pa_settings r) i
                 (xs ! i)]) [0..<k] (arrows r)\<rparr>"
    by (rule fold_arrows_update)
  finally show ?thesis
    using assms fold_update_range [OF assms,
        of "\<lambda>i. show_arrow (gradient_marker lib (pa_settings r) (length poses) cs ce i)" 0]
    by simp
qed

lemma arrows_hide_loop:
  assumes "length (arrows r) = l"
  shows "fold (\<lambda>i r. r\<lparr>arrows := (arrows r)[i := (arrows r ! i)\<lparr>arrow_visible := False\<rparr>]\<rparr>) [n..<l] r
           = r\<lparr>arrows := take n (arrows r) @ map hide_arrow (drop n (arrows r))\<rparr>"
proof -
  have "fold (\<lambda>i r. r\<lparr>arrows := (arrows r)[i := (arrows r ! i)\<lparr>arrow_visible := False\<rparr>]\<rparr>) [n..<l] r
          = fold (\<lambda>i r. r\<lparr>arrows := (arrows r)[i := hide_arrow (arrows r ! i)]\<rparr>) [n..<l] r"
    by (simp add: hide_arrow_def)
  also have "\<dots> = r\<lparr>arrows := fold (\<lambda>i xs. xs[i := hide_arrow (xs ! i)]) [n..<l] (arrows r)\<rparr>"
    by (rule fold_arrows_update_const)
  finally show ?thesis
    using assms by (simp add: fold_update_suffix')
qed

lemma arrows_create_loop:
  "fold (\<lambda>i r.
           r\<lparr>arrows := arrows r @ [\<lparr>arrow_id = pa_next_id r, arrow_visible = True,
                  arrow_marker = createArrowMarkerFromIndex lib r poses cs ce i,
                  arrow_pose = makePose\<rparr>],
             children := children r @ [arrow_id \<lparr>arrow_id = pa_next_id r, arrow_visible = True,
                  arrow_marker = createArrowMarkerFromIndex lib r poses cs ce i,
                  arrow_pose = makePose\<rparr>],
             pa_next_id := Suc (pa_next_id r)\<rparr>) is r
     = r\<lparr>arrows := arrows r @ map (\<lambda>(i, k). new_arrow (gradient_marker lib (pa_settings r) (length poses) cs ce i) k)
                                  (zip is [pa_next_id r..<pa_next_id r + length is]),
         children := children r @ [pa_next_id r..<pa_next_id r + length is],
         pa_next_id := pa_next_id r + length is\<rparr>"
  using fold_arrows_create [of "\<lambda>s i. gradient_marker lib s (length poses) cs ce i" "is" r]
  by (simp add: new_arrow_def createArrowMarkerFromIndex_eq)

lemma createArrowsToMatchPoses_eq:
  "createArrowsToMatchPoses lib r poses cs ce =
     (let mk = gradient_marker lib (pa_settings r) (length poses) cs ce;
          n = length poses; m = length (arrows r)
      in r\<lparr>arrows := map (\<lambda>i. show_arrow (mk i) (arrows r ! i)) [0..<min m n]
                     @ map hide_arrow (drop n (arrows r))
                     @ map (\<lambda>(i, k). new_arrow (mk i) k)
                         (zip [m..<n] [pa_next_id r..<pa_next_id r + (n - m)]),
           children := children r @ [pa_next_id r..<pa_next_id r + (n - m)],
           pa_next_id := pa_next_id r + (n - m)\<rparr>)"
proof -
  define mk where "mk = gradient_marker lib (pa_settings r) (length poses) cs ce"
  define n where "n = length poses"
  define m where "m = length (arrows r)"
  define r1 where "r1 = r\<lparr>arrows := map (\<lambda>i. show_arrow (mk i) (arrows r ! i)) [0..<min m n]
                           @ drop (min m n) (arrows r)\<rparr>"
  define r2 where "r2 = r1\<lparr>arrows := arrows r1 @ map (\<lambda>(i, k). new_arrow (mk i) k)
                                  (zip [m..<n] [pa_next_id r1..<pa_next_id r1 + (n - m)]),
         children := children r1 @ [pa_next_id r1..<pa_next_id r1 + (n - m)],
         pa_next_id := pa_next_id r1 + (n - m)\<rparr>"
  define r3 where "r3 = r2\<lparr>arrows := take n (arrows r2) @ map hide_arrow (drop n (arrows r2))\<rparr>"
  have l1: "length (arrows r1) = m" by (simp add: r1_def m_def)
  have p1: "pa_settings r1 = pa_settings r" by (simp add: r1_def)
  have s1: "fold (\<lambda>i r. r\<lparr>arrows := (arrows r)[i := (arrows r ! i)\<lparr>arrow_visible := True,
               arrow_marker := createArrowMarkerFromIndex lib r poses cs ce i\<rparr>]\<rparr>) [0..<min m n] r = r1"
    unfolding r1_def mk_def by (rule arrows_show_loop) (simp add: m_def)
  have s2: "fold (\<lambda>i r.
           r\<lparr>arrows := arrows r @ [\<lparr>arrow_id = pa_next_id r, arrow_visible = True,
                  arrow_marker = createArrowMarkerFromIndex lib r poses cs ce i,
                  arrow_pose = makePose\<rparr>],
             children := children r @ [arrow_id \<lparr>arrow_id = pa_next_id r, arrow_visible = True,
                  arrow_marker = createArrowMarkerFromIndex lib r poses cs ce i,
                  arrow_pose = makePose\<rparr>],
             pa_next_id := Suc (pa_next_id r)\<rparr>) [length (arrows r1)..<n] r1 = r2"
    unfolding r2_def l1 mk_def by (simp only: arrows_create_loop length_upt p1)
  have s3: "fold (\<lambda>i r. r\<lparr>arrows := (arrows r)[i := (arrows r ! i)\<lparr>arrow_visible := False\<rparr>]\<rparr>)
              [n..<length (arrows r2)] r2 = r3"
    unfolding r3_def by (rule arrows_hide_loop) simp
  have "createArrowsToMatchPoses lib r poses cs ce = r3"
    unfolding createArrowsToMatchPoses_def
    by (simp only: Let_def n_def [symmetric] m_def [symmetric] s1 s2 s3)
  also have "r3 = r\<lparr>arrows := map (\<lambda>i. show_arrow (mk i) (arrows r ! i)) [0..<min m n]
                     @ map hide_arrow (drop n (arrows r))
                     @ map (\<lambda>(i, k). new_arrow (mk i) k)
                         (zip [m..<n] [pa_next_id r..<pa_next_id r + (n - m)]),
           children := children r @ [pa_next_id r..<pa_next_id r + (n - m)],
           pa_next_id := pa_next_id r + (n - m)\<rparr>"
  proof (cases "n \<le> m")
    case True
    then show ?thesis
      by (simp add: r3_def r2_def r1_def min_def m_def)
  next
    case False
    then show ?thesis
      by (simp add: r3_def r2_def r1_def min_def m_def)
  qed
  finally show ?thesis
    by (simp only: Let_def mk_def n_def m_def)
qed

lemma setObjectPose_arrows_eq:
  assumes "length poses \<le> length (arrows r)"
  shows "setObjectPose_arrows poses r =
           r\<lparr>arrows := map (\<lambda>i. (arrows r ! i)\<lparr>arrow_pose := poses ! i\<rparr>) [0..<length poses]
                       @ drop (length poses) (arrows r)\<rparr>"
  unfolding setObjectPose_arrows_def
  using fold_arrows_update_ix [of "\<lambda>i a. a\<lparr>arrow_pose := poses ! i\<rparr>" "[0..<length poses]" r]
    fold_update_range [OF assms, of "\<lambda>i a. a\<lparr>arrow_pose := poses ! i\<rparr>" 0]
  by simp

lemma length_synced_arrows: "length (synced_arrows mk nid poses xs) = max (length xs) (length poses)"
  by (simp add: synced_arrows_def)

lemma arrows_sync_place:
  "arrows (setObjectPose_arrows poses (createArrowsToMatchPoses lib r poses cs ce)) =
     place_arrows poses
       (synced_arrows (gradient_marker lib (pa_settings r) (length poses) cs ce) (pa_next_id r)
          poses (arrows r))"
proof -
  have len: "length poses \<le> length (arrows (createArrowsToMatchPoses lib r poses cs ce))"
    by (simp add: createArrowsToMatchPoses_eq Let_def)
  show ?thesis
    by (simp add: setObjectPose_arrows_eq [OF len] place_arrows_def)
       (simp add: createArrowsToMatchPoses_eq Let_def synced_arrows_def)
qed

lemma map_place_arrows:
  assumes "length poses \<le> length xs" and "\<And>a p. sel (a\<lparr>arrow_pose := p\<rparr>) = sel a"
  shows "map sel (place_arrows poses xs) = map sel xs"
proof -
  have "map sel (place_arrows poses xs)
          = map (\<lambda>i. sel (xs ! i)) [0..<length poses] @ map sel (drop (length poses) xs)"
    by (simp add: place_arrows_def assms(2) comp_def)
  also have "\<dots> = map sel (take (length poses) xs) @ map sel (drop (length poses) xs)"
    using map_nth_range [OF assms(1), of sel 0] by simp
  finally show ?thesis by (simp flip: map_append)
qed

lemma ids_synced_arrows:
  "map arrow_id (synced_arrows mk nid poses xs)
     = map arrow_id xs @ [nid..<nid + (length poses - length xs)]"
proof -
  have a: "map (\<lambda>i. arrow_id (xs ! i)) [0..<min (length xs) (length poses)]
             = map arrow_id (take (length poses) xs)"
    using map_nth_range [of "min (length xs) (length poses)" xs arrow_id 0]
    by (cases "length xs \<le> length poses") (simp_all add: min_def)
  have b: "map (\<lambda>x. arrow_id (case x of (i, k) \<Rightarrow> new_arrow (mk i) k))
             (zip [length xs..<length poses] [nid..<nid + (length poses - length xs)])
           = map snd (zip [length xs..<length poses] [nid..<nid + (length poses - length xs)])"
    by (rule map_cong) (auto simp add: new_arrow_def)
  have "map arrow_id (synced_arrows mk nid poses xs)
          = map arrow_id (take (length poses) xs) @ map arrow_id (drop (length poses) xs)
              @ [nid..<nid + (length poses - length xs)]"
    by (simp add: synced_arrows_def comp_def show_arrow_def hide_arrow_def a b)
  then show ?thesis by (simp flip: map_append)
qed

lemma visible_synced_arrows:
  "map arrow_visible (synced_arrows mk nid poses xs)
     = replicate (min (length xs) (length poses)) True
         @ replicate (length xs - length poses) False
         @ replicate (length poses - length xs) True"
proof -
  have b: "map (\<lambda>x. arrow_visible (case x of (i, k) \<Rightarrow> new_arrow (mk i) k))
             (zip [length xs..<length poses] [nid..<nid + (length poses - length xs)])
           = map (\<lambda>x. True) (zip [length xs..<length poses] [nid..<nid + (length poses - length xs)])"
    by (rule map_cong) (auto simp add: new_arrow_def)
  show ?thesis
    by (simp add: synced_arrows_def comp_def show_arrow_def hide_arrow_def b map_replicate_const)
qed

lemma placed_arrows_facts:
  fixes A :: "arrow list" and poses :: "pose list" and mk :: "nat \<Rightarrow> marker" and nid :: nat
  defines "ys \<equiv> place_arrows poses (synced_arrows mk nid poses A)"
  shows "length (filter arrow_visible ys) = length poses"
    and "length ys = max (length A) (length poses)"
    and "take (length A) (map arrow_id ys) = map arrow_id A"
    and "\<forall>i<length ys. arrow_visible (ys ! i) \<longleftrightarrow> i < length poses"
    and "\<forall>i<length poses. arrow_pose (ys ! i) = poses ! i"
proof -
  let ?xs = "synced_arrows mk nid poses A"
  have le: "length poses \<le> length ?xs" by (simp add: length_synced_arrows)
  have vis: "map arrow_visible ys = replicate (min (length A) (length poses)) True
         @ replicate (length A - length poses) False
         @ replicate (length poses - length A) True"
    unfolding ys_def by (simp add: map_place_arrows [OF le] visible_synced_arrows)
  have ids: "map arrow_id ys = map arrow_id A @ [nid..<nid + (length poses - length A)]"
    unfolding ys_def by (simp add: map_place_arrows [OF le] ids_synced_arrows)
  show "length (filter arrow_visible ys) = length poses"
    by (simp only: length_filter_map_bool [of arrow_visible] vis count_visible)
  show len: "length ys = max (length A) (length poses)"
    using arg_cong [OF ids, of length] by simp
  show "take (length A) (map arrow_id ys) = map arrow_id A"
    by (simp add: ids)
  show "\<forall>i<length ys. arrow_visible (ys ! i) \<longleftrightarrow> i < length poses"
  proof (intro allI impI)
    fix i assume i: "i < length ys"
    then have "arrow_visible (ys ! i) = map arrow_visible ys ! i" by simp
    also have "\<dots> \<longleftrightarrow> i < length poses"
      unfolding vis using i len by (intro nth_visible) simp
    finally show "arrow_visible (ys ! i) \<longleftrightarrow> i < length poses" .
  qed
  show "\<forall>i<length poses. arrow_pose (ys ! i) = poses ! i"
    by (simp add: ys_def place_arrows_def nth_append)
qed

subsection \<open>What an update leaves alone\<close>

lemma createTrolley_frame:
  "axes (createTrolleyArrowsToMatchPoses r poses) = axes r"
  "arrows (createTrolleyArrowsToMatchPoses r poses) = arrows r"
  "pa_disposed (createTrolleyArrowsToMatchPoses r poses) = pa_disposed r"
  "lineStrip (createTrolleyArrowsToMatchPoses r poses) = lineStrip r"
  "pa_settings (createTrolleyArrowsToMatchPoses r poses) = pa_settings r"
  by (simp_all add: createTrolleyArrowsToMatchPoses_def Let_def fold_frames)

lemma setObjectPoseTrolley_frame:
  "axes (setObjectPoseTrolley_all lib poses r) = axes r"
  "arrows (setObjectPoseTrolley_all lib poses r) = arrows r"
  "pa_disposed (setObjectPoseTrolley_all lib poses r) = pa_disposed r"
  "lineStrip (setObjectPoseTrolley_all lib poses r) = lineStrip r"
  "pa_settings (setObjectPoseTrolley_all lib poses r) = pa_settings r"
  by (simp_all add: setObjectPoseTrolley_all_def fold_frames)

lemma remove_frames:
  "axes (removeArrows r) = axes r" "axes (removeTrolley r) = axes r" "axes (removeLineStrip r) = axes r"
  "arrows (removeAxes r) = arrows r" "arrows (removeTrolley r) = arrows r" "arrows (removeLineStrip r) = arrows r"
  "trolley_arrows (removeAxes r) = trolley_arrows r" "trolley_arrows (removeArrows r) = trolley_arrows r"
  "trolley_arrows (removeLineStrip r) = trolley_arrows r"
  "lineStrip (removeAxes r) = lineStrip r" "lineStrip (removeArrows r) = lineStrip r"
  "lineStrip (removeTrolley r) = lineStrip r"
  "pa_settings (removeAxes r) = pa_settings r" "pa_settings (removeArrows r) = pa_settings r"
  "pa_settings (removeTrolley r) = pa_settings r" "pa_settings (removeLineStrip r) = pa_settings r"
  by (simp_all add: removeAxes_def removeArrows_def removeTrolley_def removeLineStrip_def Let_def
      split: option.splits)

lemma remove_disposed:
  "pa_disposed (removeAxes r) = pa_disposed r @ map axis_id (axes r)"
  "pa_disposed (removeArrows r) = pa_disposed r @ map arrow_id (arrows r)"
  "pa_disposed (removeTrolley r) = pa_disposed r @ map arrow_id (trolley_arrows r)"
  "pa_disposed (removeLineStrip r) = pa_disposed r @ line_ids r"
  by (simp_all add: removeAxes_def removeArrows_def removeTrolley_def removeLineStrip_def Let_def
      line_ids_def split: option.splits)

lemma remove_pools:
  "axes (removeAxes r) = []" "arrows (removeArrows r) = []"
  "trolley_arrows (removeTrolley r) = []" "lineStrip (removeLineStrip r) = None"
  by (simp_all add: removeAxes_def removeArrows_def removeTrolley_def removeLineStrip_def Let_def
      split: option.splits)

lemma line_ids_frames:
  "line_ids (removeArrows r) = line_ids r" "line_ids (removeTrolley r) = line_ids r"
  "line_ids (removeAxes r) = line_ids r"
  by (simp_all add: line_ids_def remove_frames)

lemma disposed_sync_place:
  "pa_disposed (setObjectPose_axes poses (createAxesToMatchPoses lib r poses)) = pa_disposed r"
  "pa_disposed (setObjectPose_arrows poses (createArrowsToMatchPoses lib r poses cs ce)) = pa_disposed r"
  by (simp_all add: setObjectPose_axes_def setObjectPose_arrows_def fold_frames
      createAxesToMatchPoses_eq createArrowsToMatchPoses_eq Let_def)

lemma update_axis_form:
  assumes "s_type s = Axis"
  shows "\<exists>rB. updatePoseArrayRenderable lib r poses s
                 = setObjectPose_axes poses (createAxesToMatchPoses lib rB poses)
              \<and> axes rB = axes r \<and> pa_settings rB = s
              \<and> pa_disposed rB = pa_disposed r @
                   (if settings_changed r s then
                      (if trolley s then map arrow_id (trolley_arrows r) else [])
                        @ map arrow_id (arrows r) @ line_ids r
                    else [])"
proof -
  define r0 where "r0 = r\<lparr>poseArrayMessage := poses, pa_settings := s\<rparr>"
  define rA where "rA = (if settings_changed r s then
       removeLineStrip (removeArrows (if trolley s then removeTrolley r0 else r0)) else r0)"
  define rB where "rB = (if trolley s then
       setObjectPoseTrolley_all lib poses (createTrolleyArrowsToMatchPoses rA poses) else rA)"
  have u: "updatePoseArrayRenderable lib r poses s
             = setObjectPose_axes poses (createAxesToMatchPoses lib rB poses)"
    using assms
    by (simp add: updatePoseArrayRenderable_def Let_def rB_def rA_def r0_def settings_changed_def
        remove_frames)
  have a: "axes rA = axes r" "pa_settings rA = s"
    by (simp_all add: rA_def r0_def remove_frames)
  have d: "pa_disposed rA = pa_disposed r @
                   (if settings_changed r s then
                      (if trolley s then map arrow_id (trolley_arrows r) else [])
                        @ map arrow_id (arrows r) @ line_ids r
                    else [])"
    by (simp add: rA_def r0_def remove_frames remove_disposed line_ids_frames)
       (simp add: line_ids_def)
  have "axes rB = axes r" "pa_settings rB = s" "pa_disposed rB = pa_disposed rA"
    using a by (simp_all add: rB_def createTrolley_frame setObjectPoseTrolley_frame)
  with u d show ?thesis by metis
qed

lemma update_arrow_form:
  assumes "s_type s = Arrow"
  shows "\<exists>rB. updatePoseArrayRenderable lib r poses s
                 = setObjectPose_arrows poses
                     (createArrowsToMatchPoses lib rB poses (stringToRgba lib (fst (gradient s)))
                        (stringToRgba lib (snd (gradient s))))
              \<and> arrows rB = arrows r \<and> pa_settings rB = s
              \<and> pa_disposed rB = pa_disposed r @
                   (if settings_changed r s then
                      (if trolley s then map arrow_id (trolley_arrows r) else [])
                        @ map axis_id (axes r) @ line_ids r
                    else [])"
proof -
  define r0 where "r0 = r\<lparr>poseArrayMessage := poses, pa_settings := s\<rparr>"
  define rA where "rA = (if settings_changed r s then
       removeLineStrip (removeAxes (if trolley s then removeTrolley r0 else r0)) else r0)"
  define rB where "rB = (if trolley s then
       setObjectPoseTrolley_all lib poses (createTrolleyArrowsToMatchPoses rA poses) else rA)"
  have u: "updatePoseArrayRenderable lib r poses s
             = setObjectPose_arrows poses
                     (createArrowsToMatchPoses lib rB poses (stringToRgba lib (fst (gradient s)))
                        (stringToRgba lib (snd (gradient s))))"
    using assms
    by (simp add: updatePoseArrayRenderable_def Let_def rB_def rA_def r0_def settings_changed_def
        remove_frames)
  have a: "arrows rA = arrows r" "pa_settings rA = s"
    by (simp_all add: rA_def r0_def remove_frames)
  have d: "pa_disposed rA = pa_disposed r @
                   (if settings_changed r s then
                      (if trolley s then map arrow_id (trolley_arrows r) else [])
                        @ map axis_id (axes r) @ line_ids r
                    else [])"
    by (simp add: rA_def r0_def remove_frames remove_disposed line_ids_frames)
       (simp add: line_ids_def)
  have "arrows rB = arrows r" "pa_settings rB = s" "pa_disposed rB = pa_disposed rA"
    using a by (simp_all add: rB_def createTrolley_frame setObjectPoseTrolley_frame)
  with u d show ?thesis by metis
qed

subsection \<open>Synchronising a pool with a pose array\<close>

text \<open>
  Claim C2.  After an update in axis mode, from any state of the renderable and so
  after each update of any sequence, the number of visible axes is the number of
  poses; the pool is as long as the longer of the old pool and the pose array; every
  axis of the old pool is still in the pool at its index, with its identity; an axis
  is visible exactly when its index is below the number of poses, so the surplus
  axes are hidden; the axis at each index below the number of poses is placed at the
  pose of that index; and the update disposes of no object except arrows, trolley
  arrows and the line strip.  The same holds in arrow mode for the pool of arrows,
  where the update disposes of no object except axes, trolley arrows and the line
  strip.
\<close>

theorem pool_sync:
  "(s_type s = Axis \<longrightarrow>
      (let r' = updatePoseArrayRenderable lib r poses s in
         length (filter axis_visible (axes r')) = length poses
       \<and> length (axes r') = max (length (axes r)) (length poses)
       \<and> take (length (axes r)) (map axis_id (axes r')) = map axis_id (axes r)
       \<and> (\<forall>i<length (axes r'). axis_visible (axes r' ! i) \<longleftrightarrow> i < length poses)
       \<and> (\<forall>i<length poses. axis_pose (axes r' ! i) = poses ! i)
       \<and> set (pa_disposed r') \<subseteq> set (pa_disposed r) \<union> set (map arrow_id (arrows r))
            \<union> set (map arrow_id (trolley_arrows r)) \<union> set (line_ids r)))
   \<and> (s_type s = Arrow \<longrightarrow>
      (let r' = updatePoseArrayRenderable lib r poses s in
         length (filter arrow_visible (arrows r')) = length poses
       \<and> length (arrows r') = max (length (arrows r)) (length poses)
       \<and> take (length (arrows r)) (map arrow_id (arrows r')) = map arrow_id (arrows r)
       \<and> (\<forall>i<length (arrows r'). arrow_visible (arrows r' ! i) \<longleftrightarrow> i < length poses)
       \<and> (\<forall>i<length poses. arrow_pose (arrows r' ! i) = poses ! i)
       \<and> set (pa_disposed r') \<subseteq> set (pa_disposed r) \<union> set (map axis_id (axes r))
            \<union> set (map arrow_id (trolley_arrows r)) \<union> set (line_ids r)))"
proof (intro conjI impI)
  assume ax: "s_type s = Axis"
  from update_axis_form [OF ax, of lib r poses] obtain rB where
    u: "updatePoseArrayRenderable lib r poses s
          = setObjectPose_axes poses (createAxesToMatchPoses lib rB poses)"
    and a: "axes rB = axes r"
    and d: "pa_disposed rB = pa_disposed r @
                   (if settings_changed r s then
                      (if trolley s then map arrow_id (trolley_arrows r) else [])
                        @ map arrow_id (arrows r) @ line_ids r
                    else [])"
    by blast
  have ax': "axes (updatePoseArrayRenderable lib r poses s)
          = place_axes poses (synced_axes (axisScale (pa_settings rB) * (1 / AXIS_LENGTH lib))
              (pa_next_id rB) poses (axes r))"
    by (simp only: u axes_sync_place' a)
  have dis: "pa_disposed (updatePoseArrayRenderable lib r poses s) = pa_disposed rB"
    by (simp only: u disposed_sync_place)
  have sub: "set (pa_disposed rB) \<subseteq> set (pa_disposed r) \<union> set (map arrow_id (arrows r))
            \<union> set (map arrow_id (trolley_arrows r)) \<union> set (line_ids r)"
    unfolding d by auto
  show "let r' = updatePoseArrayRenderable lib r poses s in
         length (filter axis_visible (axes r')) = length poses
       \<and> length (axes r') = max (length (axes r)) (length poses)
       \<and> take (length (axes r)) (map axis_id (axes r')) = map axis_id (axes r)
       \<and> (\<forall>i<length (axes r'). axis_visible (axes r' ! i) \<longleftrightarrow> i < length poses)
       \<and> (\<forall>i<length poses. axis_pose (axes r' ! i) = poses ! i)
       \<and> set (pa_disposed r') \<subseteq> set (pa_disposed r) \<union> set (map arrow_id (arrows r))
            \<union> set (map arrow_id (trolley_arrows r)) \<union> set (line_ids r)"
    unfolding Let_def ax' dis
    using placed_axes_facts [where A = "axes r" and poses = poses
        and s = "axisScale (pa_settings rB) * (1 / AXIS_LENGTH lib)" and nid = "pa_next_id rB"] sub
    by blast
next
  assume ar: "s_type s = Arrow"
  from update_arrow_form [OF ar, of lib r poses] obtain rB where
    u: "updatePoseArrayRenderable lib r poses s
          = setObjectPose_arrows poses
                     (createArrowsToMatchPoses lib rB poses (stringToRgba lib (fst (gradient s)))
                        (stringToRgba lib (snd (gradient s))))"
    and a: "arrows rB = arrows r"
    and d: "pa_disposed rB = pa_disposed r @
                   (if settings_changed r s then
                      (if trolley s then map arrow_id (trolley_arrows r) else [])
                        @ map axis_id (axes r) @ line_ids r
                    else [])"
    by blast
  have ar': "arrows (updatePoseArrayRenderable lib r poses s)
          = place_arrows poses (synced_arrows
              (gradient_marker lib (pa_settings rB) (length poses)
                 (stringToRgba lib (fst (gradient s))) (stringToRgba lib (snd (gradient s))))
              (pa_next_id rB) poses (arrows r))"
    by (simp only: u arrows_sync_place a)
  have dis: "pa_disposed (updatePoseArrayRenderable lib r poses s) = pa_disposed rB"
    by (simp only: u disposed_sync_place)
  have sub: "set (pa_disposed rB) \<subseteq> set (pa_disposed r) \<union> set (map axis_id (axes r))
            \<union> set (map arrow_id (trolley_arrows r)) \<union> set (line_ids r)"
    unfolding d by auto
  show "let r' = updatePoseArrayRenderable lib r poses s in
         length (filter arrow_visible (arrows r')) = length poses
       \<and> length (arrows r') = max (length (arrows r)) (length poses)
       \<and> take (length (arrows r)) (map arrow_id (arrows r')) = map arrow_id (arrows r)
       \<and> (\<forall>i<length (arrows r'). arrow_visible (arrows r' ! i) \<longleftrightarrow> i < length poses)
       \<and> (\<forall>i<length poses. arrow_pose (arrows r' ! i) = poses ! i)
       \<and> set (pa_disposed r') \<subseteq> set (pa_disposed r) \<union> set (map axis_id (axes r))
            \<union> set (map arrow_id (trolley_arrows r)) \<union> set (line_ids r)"
    unfolding Let_def ar' dis
    using placed_arrows_facts [where A = "arrows r" and poses = poses
        and mk = "gradient_marker lib (pa_settings rB) (length poses)
                 (stringToRgba lib (fst (gradient s))) (stringToRgba lib (snd (gradient s)))"
        and nid = "pa_next_id rB"] sub
    by blast
qed

lemma shrink_eval:
  "map (\<lambda>a. (axis_id a, axis_visible a))
     (axes (updatePoseArrayRenderable lib0 three_axes [pose_at 5] axis_settings))
     = [(0, True), (1, False), (2, False)]"
  by code_simp

lemma grow_eval:
  "map (\<lambda>a. (arrow_id a, arrow_visible a))
     (arrows (updatePoseArrayRenderable lib0 three_axes [pose_at 1, pose_at 2] arrow_settings))
     = [(3, True), (4, True)]"
  by code_simp

text \<open>
  Three visible axes and then one pose in axis mode: one axis stays visible, two are
  hidden, and the three identities stay in the pool.  An empty pool of arrows and then
  two poses in arrow mode: two new visible arrows.
\<close>

theorem pool_sync_witness:
  "s_type axis_settings = Axis
   \<and> length (filter axis_visible (axes (updatePoseArrayRenderable lib0 three_axes [pose_at 5] axis_settings)))
       = length [pose_at 5]
   \<and> map axis_id (axes (updatePoseArrayRenderable lib0 three_axes [pose_at 5] axis_settings)) = [0, 1, 2]
   \<and> map axis_visible (axes (updatePoseArrayRenderable lib0 three_axes [pose_at 5] axis_settings))
       = [True, False, False]
   \<and> s_type arrow_settings = Arrow
   \<and> length (filter arrow_visible
        (arrows (updatePoseArrayRenderable lib0 three_axes [pose_at 1, pose_at 2] arrow_settings)))
       = length [pose_at 1, pose_at 2]
   \<and> map arrow_id (arrows (updatePoseArrayRenderable lib0 three_axes [pose_at 1, pose_at 2] arrow_settings))
       = [3, 4]"
proof -
  have t: "s_type axis_settings = Axis" by (simp add: axis_settings_def)
  have t': "s_type arrow_settings = Arrow" by (simp add: arrow_settings_def)
  have e: "map ((\<lambda>p. fst p) \<circ> (\<lambda>a. (axis_id a, axis_visible a)))
     (axes (updatePoseArrayRenderable lib0 three_axes [pose_at 5] axis_settings)) = [0, 1, 2]"
    "map ((\<lambda>p. snd p) \<circ> (\<lambda>a. (axis_id a, axis_visible a)))
     (axes (updatePoseArrayRenderable lib0 three_axes [pose_at 5] axis_settings)) = [True, False, False]"
    unfolding map_map [symmetric] shrink_eval by simp_all
  have e': "map ((\<lambda>p. fst p) \<circ> (\<lambda>a. (arrow_id a, arrow_visible a)))
     (arrows (updatePoseArrayRenderable lib0 three_axes [pose_at 1, pose_at 2] arrow_settings)) = [3, 4]"
    unfolding map_map [symmetric] grow_eval by simp
  from pool_sync [of axis_settings lib0 three_axes "[pose_at 5]"]
    pool_sync [of arrow_settings lib0 three_axes "[pose_at 1, pose_at 2]"] t t' e e'
  show ?thesis
    by (simp add: Let_def comp_def)
qed

subsection \<open>Switching the trolley off\<close>

lemma trolley_eval:
  "pa_disposed (updatePoseArrayRenderable lib0 with_trolley [pose_at 1, pose_at 2] axis_settings) = []
   \<and> children (updatePoseArrayRenderable lib0 with_trolley [pose_at 1, pose_at 2] axis_settings)
     = [0, 1, 2, 3]"
  by code_simp

text \<open>
  Claim C5 has the pool of trolley arrows released when the settings switch the
  trolley off.  The code does the opposite: \<open>removeTrolley\<close> runs when the new
  settings have the trolley on, so an update whose settings have the trolley off, in
  any display mode and from any state, leaves the pool of trolley arrows as it was.
\<close>

theorem trolley_pool_survives:
  assumes "\<not> trolley s"
  shows "trolley_arrows (updatePoseArrayRenderable lib r poses s) = trolley_arrows r"
proof (cases "s_type s")
  case Axis
  then show ?thesis
    using assms
    by (simp add: updatePoseArrayRenderable_def Let_def remove_frames setObjectPose_axes_def
        fold_frames createAxesToMatchPoses_eq)
next
  case Arrow
  then show ?thesis
    using assms
    by (simp add: updatePoseArrayRenderable_def Let_def remove_frames setObjectPose_arrows_def
        fold_frames createArrowsToMatchPoses_eq)
next
  case Line
  then show ?thesis
    using assms
    by (simp add: updatePoseArrayRenderable_def Let_def remove_frames split: option.splits)
qed

text \<open>
  A renderable in axis mode with the trolley on, two axes and two trolley arrows (the
  identities 2 and 3), when the settings change to the trolley off: both trolley
  arrows stay in their pool, visible and attached, and nothing is disposed.
\<close>

theorem trolley_pool_survives_witness:
  "trolley (pa_settings with_trolley) \<and> \<not> trolley axis_settings
   \<and> map arrow_id (trolley_arrows
        (updatePoseArrayRenderable lib0 with_trolley [pose_at 1, pose_at 2] axis_settings)) = [2, 3]
   \<and> map arrow_visible (trolley_arrows
        (updatePoseArrayRenderable lib0 with_trolley [pose_at 1, pose_at 2] axis_settings)) = [True, True]
   \<and> pa_disposed (updatePoseArrayRenderable lib0 with_trolley [pose_at 1, pose_at 2] axis_settings) = []
   \<and> children (updatePoseArrayRenderable lib0 with_trolley [pose_at 1, pose_at 2] axis_settings)
     = [0, 1, 2, 3]"
proof -
  have off: "\<not> trolley axis_settings" by (simp add: axis_settings_def)
  from trolley_pool_survives [OF off, of lib0 with_trolley "[pose_at 1, pose_at 2]"] off trolley_eval
  show ?thesis
    by (simp add: with_trolley_def trolley_arrow0_def axis_settings_def)
qed

text \<open>
  The pools of the display modes are released on a change of the settings: in axis
  mode the arrows and the line strip, in arrow mode the axes and the line strip, in
  line mode the arrows and the axes.
\<close>

lemma mode_switch_releases:
  assumes "settings_changed r s"
  shows "s_type s = Axis \<Longrightarrow> arrows (updatePoseArrayRenderable lib r poses s) = []
                            \<and> lineStrip (updatePoseArrayRenderable lib r poses s) = None"
    and "s_type s = Arrow \<Longrightarrow> axes (updatePoseArrayRenderable lib r poses s) = []
                            \<and> lineStrip (updatePoseArrayRenderable lib r poses s) = None"
    and "s_type s = Line \<Longrightarrow> arrows (updatePoseArrayRenderable lib r poses s) = []
                            \<and> axes (updatePoseArrayRenderable lib r poses s) = []"
proof -
  have c: "(trolley s \<noteq> trolley (pa_settings r)
             \<or> s_type s \<noteq> s_type (pa_settings r)
             \<or> axisScale s \<noteq> axisScale (pa_settings r)
             \<or> \<not> (arrowScale s = arrowScale (pa_settings r))
             \<or> \<not> (gradient s = gradient (pa_settings r))
             \<or> (length (arrows r) = 0 \<and> length (axes r) = 0)) = True"
    using assms by (simp add: settings_changed_def)
  show "s_type s = Axis \<Longrightarrow> arrows (updatePoseArrayRenderable lib r poses s) = []
                            \<and> lineStrip (updatePoseArrayRenderable lib r poses s) = None"
    unfolding updatePoseArrayRenderable_def Let_def c
    by (simp add: remove_frames remove_pools createTrolley_frame setObjectPoseTrolley_frame
        setObjectPose_axes_def fold_frames createAxesToMatchPoses_eq Let_def)
  show "s_type s = Arrow \<Longrightarrow> axes (updatePoseArrayRenderable lib r poses s) = []
                            \<and> lineStrip (updatePoseArrayRenderable lib r poses s) = None"
    unfolding updatePoseArrayRenderable_def Let_def c
    by (simp add: remove_frames remove_pools createTrolley_frame setObjectPoseTrolley_frame
        setObjectPose_arrows_def fold_frames createArrowsToMatchPoses_eq Let_def)
  show "s_type s = Line \<Longrightarrow> arrows (updatePoseArrayRenderable lib r poses s) = []
                            \<and> axes (updatePoseArrayRenderable lib r poses s) = []"
    unfolding updatePoseArrayRenderable_def Let_def c
    by (simp add: remove_frames remove_pools createTrolley_frame setObjectPoseTrolley_frame
        split: option.splits)
qed

subsection \<open>The gradient parameter\<close>

text \<open>
  Claim C4 at a pose array with one pose.  The claim has the parameter of the single
  child treated as 0.  The code divides 0 by 0: the parameter is \<open>NaN\<close>, and the
  colour of the arrow and of the vertex of the line is \<open>rgbaGradient\<close> at \<open>NaN\<close>.
\<close>

theorem single_pose_gradient:
  "js_div (int 0) (int (length [p :: pose]) - 1) = NaN
   \<and> m_color (createArrowMarkerFromIndex lib r [p] colorStart colorEnd 0)
       = rgbaGradient lib colorStart colorEnd NaN
   \<and> lm_colors (createLineStripMarker lib [p] lw colorStart colorEnd)
       = [rgbaGradient lib colorStart colorEnd NaN]"
  by (simp add: createArrowMarkerFromIndex_def createLineStripMarker_def js_div_def Let_def)

text \<open>With two poses or more the first parameter is 0 and the last is 1.\<close>

lemma gradient_ends:
  assumes "2 \<le> n"
  shows "js_div (int 0) (int n - 1) = Num 0" and "js_div (int (n - 1)) (int n - 1) = Num 1"
  using assms by (simp_all add: js_div_def of_nat_diff)

subsection \<open>The vendor robot-state-path adapter\<close>

text \<open>
  Claim C10.  The adapter maps an element of the path to the pose whose position is
  (pose_x, pose_y, velocity_x) and whose orientation is the rotation of the Euler
  angles (-velocity_theta, 0, pose_theta), each missing number being 0; a missing
  element becomes the pose at the origin with the identity rotation; the poses of a
  path are those of its elements, in order.
\<close>

theorem normalizeMirPose_fields:
  "normalizeMirPose setFromEuler (Some p) =
     \<lparr>position = \<lparr>vx = case_option 0 id (pose_x p), vy = case_option 0 id (pose_y p),
                   vz = case_option 0 id (velocity_x p)\<rparr>,
      orientation = setFromEuler (- case_option 0 id (velocity_theta p), 0,
                                  case_option 0 id (pose_theta p))\<rparr>
   \<and> normalizeMirPose setFromEuler None =
     \<lparr>position = \<lparr>vx = 0, vy = 0, vz = 0\<rparr>, orientation = \<lparr>qx = 0, qy = 0, qz = 0, qw = 1\<rparr>\<rparr>
   \<and> normalizeMirPoseArray setFromEuler (Some (Some path)) = map (normalizeMirPose setFromEuler) path"
  by (simp add: normalizeMirPose_def normalizeMirPoseArray_def Euler_def Let_def normalizePose_def
      normalizeVector3_def normalizeQuaternion_def split: option.splits)

end
